theory Spec2Isabelle
  imports Main "HOL-Library.AList"
begin

section \<open>Issue model (code-analyzer.py, lines 20-98)\<close>

datatype Severity = CRITICAL | HIGH | MEDIUM | LOW | INFO

datatype IssueType =
    SYNTAX_ERROR | LINTING_ERROR | SECURITY_VULNERABILITY | CODE_SMELL | DEPRECATED_USAGE
  | PERFORMANCE_ISSUE | STYLE_VIOLATION | TYPE_ERROR | UNUSED_CODE | IMPORT_ERROR

text \<open>The \<^verbatim>\<open>.value\<close> of the two enums.\<close>

fun severity_value :: "Severity \<Rightarrow> string" where
  "severity_value CRITICAL = ''critical''"
| "severity_value HIGH = ''high''"
| "severity_value MEDIUM = ''medium''"
| "severity_value LOW = ''low''"
| "severity_value INFO = ''info''"

fun issue_type_value :: "IssueType \<Rightarrow> string" where
  "issue_type_value SYNTAX_ERROR = ''syntax_error''"
| "issue_type_value LINTING_ERROR = ''linting_error''"
| "issue_type_value SECURITY_VULNERABILITY = ''security_vulnerability''"
| "issue_type_value CODE_SMELL = ''code_smell''"
| "issue_type_value DEPRECATED_USAGE = ''deprecated_usage''"
| "issue_type_value PERFORMANCE_ISSUE = ''performance_issue''"
| "issue_type_value STYLE_VIOLATION = ''style_violation''"
| "issue_type_value TYPE_ERROR = ''type_error''"
| "issue_type_value UNUSED_CODE = ''unused_code''"
| "issue_type_value IMPORT_ERROR = ''import_error''"

text \<open>
  Python values as they reach a \<^verbatim>\<open>CodeIssue\<close>. The dataclass annotations
  (\<^verbatim>\<open>file: str\<close>, \<^verbatim>\<open>line: int\<close>, ...) are not enforced at run time: the
  pattern detectors store strings and integers, \<^verbatim>\<open>run_linters\<close> stores whatever JSON
  value the external tool printed under the key. A JSON object is an association list in key
  order. JSON numbers with a fraction or an exponent (Python floats) are not represented.
\<close>

datatype pyval =
    PNone | PBool bool | PInt int | PStr string
  | PList "pyval list" | PDict "(string \<times> pyval) list"

record CodeIssue =
  file_path :: pyval
  line :: pyval
  column :: pyval
  severity :: Severity
  issue_type :: IssueType
  message :: pyval
  rule_id :: pyval
  suggestion :: "string option"
  fixable :: bool

text \<open>\<^verbatim>\<open>CodeIssue.to_dict\<close>: the flat record, severity and type as their string tags.\<close>

record IssueDict =
  d_file :: pyval
  d_line :: pyval
  d_column :: pyval
  d_severity :: string
  d_type :: string
  d_message :: pyval
  d_rule_id :: pyval
  d_suggestion :: "string option"
  d_fixable :: bool

definition issue_to_dict :: "CodeIssue \<Rightarrow> IssueDict" where
  "issue_to_dict i =
     \<lparr> d_file = file_path i, d_line = line i, d_column = column i,
       d_severity = severity_value (severity i), d_type = issue_type_value (issue_type i),
       d_message = message i, d_rule_id = rule_id i, d_suggestion = suggestion i,
       d_fixable = fixable i \<rparr>"

text \<open>
  A Python \<^verbatim>\<open>dict\<close> from string keys to counts, in insertion order.
  \<^verbatim>\<open>d.get(k, 0)\<close> is \<open>dict_get d k 0\<close>; \<^verbatim>\<open>d[k] = v\<close> replaces the value of an
  existing key in place and appends a new key at the end, which is \<^const>\<open>AList.update\<close>.
\<close>

type_synonym count_dict = "(string \<times> int) list"

definition dict_get :: "count_dict \<Rightarrow> string \<Rightarrow> int \<Rightarrow> int" where
  "dict_get d k dflt = (case map_of d k of None \<Rightarrow> dflt | Some v \<Rightarrow> v)"

definition dict_values :: "count_dict \<Rightarrow> int list" where
  "dict_values d = map snd d"

record ScanResult =
  timestamp :: string
  files_scanned :: int
  issues_found :: int
  issues_by_severity :: count_dict
  issues_by_type :: count_dict
  critical_issues :: "CodeIssue list"
  auto_fixable_issues :: "CodeIssue list"
  issues :: "CodeIssue list"

record Summary =
  s_files_scanned :: int
  total_issues :: int
  by_severity :: count_dict
  by_type :: count_dict
  critical_count :: int
  auto_fixable_count :: int

record ResultDict =
  r_timestamp :: string
  summary :: Summary
  r_critical_issues :: "IssueDict list"
  r_auto_fixable_issues :: "IssueDict list"
  all_issues :: "IssueDict list"

text \<open>\<^verbatim>\<open>ScanResult.to_dict\<close> (lines 83-98).\<close>

definition to_dict :: "ScanResult \<Rightarrow> ResultDict" where
  "to_dict r =
     \<lparr> r_timestamp = timestamp r,
       summary =
         \<lparr> s_files_scanned = files_scanned r,
           total_issues = issues_found r,
           by_severity = issues_by_severity r,
           by_type = issues_by_type r,
           critical_count = int (length (critical_issues r)),
           auto_fixable_count = int (length (auto_fixable_issues r)) \<rparr>,
       r_critical_issues = map issue_to_dict (critical_issues r),
       r_auto_fixable_issues = map issue_to_dict (auto_fixable_issues r),
       all_issues = map issue_to_dict (issues r) \<rparr>"

text \<open>The default-constructed \<^verbatim>\<open>ScanResult()\<close>; the timestamp is the clock's reading.\<close>

definition new_ScanResult :: "string \<Rightarrow> ScanResult" where
  "new_ScanResult now =
     \<lparr> timestamp = now, files_scanned = 0, issues_found = 0,
       issues_by_severity = [], issues_by_type = [],
       critical_issues = [], auto_fixable_issues = [], issues = [] \<rparr>"

section \<open>Aggregation loop of \<^verbatim>\<open>analyze\<close> (lines 346-363)\<close>

text \<open>One iteration of \<^verbatim>\<open>for issue in self.issues\<close>, on \<^verbatim>\<open>self.result\<close>.\<close>

definition categorize_step :: "ScanResult \<Rightarrow> CodeIssue \<Rightarrow> ScanResult" where
  "categorize_step r issue =
     (let severity_key = severity_value (severity issue);
          r1 = r\<lparr>issues_by_severity :=
                  AList.update severity_key (dict_get (issues_by_severity r) severity_key 0 + 1)
                    (issues_by_severity r)\<rparr>;
          type_key = issue_type_value (issue_type issue);
          r2 = r1\<lparr>issues_by_type :=
                  AList.update type_key (dict_get (issues_by_type r1) type_key 0 + 1)
                    (issues_by_type r1)\<rparr>;
          r3 = (if severity issue = CRITICAL
                then r2\<lparr>critical_issues := critical_issues r2 @ [issue]\<rparr> else r2)
      in if fixable issue
         then r3\<lparr>auto_fixable_issues := auto_fixable_issues r3 @ [issue]\<rparr> else r3)"

fun categorize :: "ScanResult \<Rightarrow> CodeIssue list \<Rightarrow> ScanResult" where
  "categorize r [] = r"
| "categorize r (issue # rest) = categorize (categorize_step r issue) rest"

section \<open>Python strings\<close>

text \<open>
  A Python \<^verbatim>\<open>str\<close> is modelled as a \<^typ>\<open>string\<close>, one \<^typ>\<open>char\<close> per character,
  the \<^typ>\<open>char\<close> being the code point: the embedding covers text up to U+00FF.
  \<open>py_isspace\<close> is the whitespace of \<^verbatim>\<open>str.strip()\<close> and of \<^verbatim>\<open>\s\<close> in that range:
  tab, newline, vertical tab, form feed, carriage return, the four separators 0x1C-0x1F,
  space, next line (U+0085) and the no-break space (U+00A0). \<open>py_isword\<close> is \<^verbatim>\<open>\w\<close>
  there, the characters on which \<^verbatim>\<open>str.isalnum()\<close> holds and the underscore: the ASCII
  digits and letters, the ordinal indicators U+00AA and U+00BA, the micro sign U+00B5, the
  superscript digits U+00B2, U+00B3 and U+00B9, the fractions U+00BC-U+00BE, and the letters
  U+00C0-U+00FF without the multiplication and division signs U+00D7 and U+00F7.
\<close>

definition newline :: char where
  "newline = CHR 0x0A"

definition py_isspace :: "char \<Rightarrow> bool" where
  "py_isspace c =
     (let n = of_char c :: nat
      in (9 \<le> n \<and> n \<le> 13) \<or> (28 \<le> n \<and> n \<le> 32) \<or> n = 133 \<or> n = 160)"

definition py_isword :: "char \<Rightarrow> bool" where
  "py_isword c =
     (let n = of_char c :: nat
      in (48 \<le> n \<and> n \<le> 57) \<or> (65 \<le> n \<and> n \<le> 90) \<or> n = 95 \<or> (97 \<le> n \<and> n \<le> 122)
         \<or> n = 170 \<or> (178 \<le> n \<and> n \<le> 179) \<or> n = 181 \<or> (185 \<le> n \<and> n \<le> 186)
         \<or> (188 \<le> n \<and> n \<le> 190) \<or> (192 \<le> n \<and> n \<le> 214) \<or> (216 \<le> n \<and> n \<le> 246)
         \<or> (248 \<le> n \<and> n \<le> 255))"

text \<open>\<^verbatim>\<open>content.split('\n')\<close>: never empty, the last piece is what follows the last newline.\<close>

fun split_lines :: "string \<Rightarrow> string list" where
  "split_lines [] = [[]]"
| "split_lines (c # cs) =
     (if c = newline then [] # split_lines cs
      else (case split_lines cs of [] \<Rightarrow> [[c]] | l # ls \<Rightarrow> (c # l) # ls))"

text \<open>\<^verbatim>\<open>line.strip()\<close>.\<close>

definition str_strip :: "string \<Rightarrow> string" where
  "str_strip s = rev (dropWhile py_isspace (rev (dropWhile py_isspace s)))"

text \<open>
  \<^verbatim>\<open>s.find(sub)\<close>: the lowest index at which \<^verbatim>\<open>sub\<close> occurs in \<^verbatim>\<open>s\<close>, or -1.
  \<open>find_from sub s i\<close> searches the suffix \<open>s\<close> that starts at index \<open>i\<close>.
\<close>

fun find_from :: "string \<Rightarrow> string \<Rightarrow> int \<Rightarrow> int" where
  "find_from sub [] i = (if sub = [] then i else - 1)"
| "find_from sub (c # cs) i =
     (if take (length sub) (c # cs) = sub then i else find_from sub cs (i + 1))"

definition str_find :: "string \<Rightarrow> string \<Rightarrow> int" where
  "str_find s sub = find_from sub s 0"

section \<open>Regular expressions of the detectors\<close>

text \<open>
  The fragment of Python's \<^verbatim>\<open>re\<close> syntax that the rule tables use: literal text, the
  bracket classes \<^verbatim>\<open>[...]\<close> and \<^verbatim>\<open>[^...]\<close>, \<^verbatim>\<open>\s\<close>, \<^verbatim>\<open>\w\<close>, the anchors
  \<^verbatim>\<open>^\<close>, \<^verbatim>\<open>$\<close> and \<^verbatim>\<open>\b\<close>, concatenation, \<^verbatim>\<open>|\<close> and \<^verbatim>\<open>*\<close>. The detectors
  only test whether a match exists, so the matcher returns every position at which a match of
  the expression can end; greediness does not matter.
\<close>

datatype regex =
    Lit string
  | OneOf "char list"
  | NoneOf "char list"
  | Space
  | Word
  | Bol
  | Eol
  | WordBoundary
  | Seq regex regex
  | Alt regex regex
  | Star regex

definition Plus :: "regex \<Rightarrow> regex" where
  "Plus r = Seq r (Star r)"

definition Opt :: "regex \<Rightarrow> regex" where
  "Opt r = Alt r (Lit [])"

text \<open>
  A position in the subject string: the character before it (\<open>None\<close> at the start of the
  string) and the text from it on.
\<close>

type_synonym pos = "char option \<times> string"

fun one_char :: "(char \<Rightarrow> bool) \<Rightarrow> pos \<Rightarrow> pos list" where
  "one_char P (p, []) = []"
| "one_char P (p, c # cs) = (if P c then [(Some c, cs)] else [])"

definition at_word_boundary :: "pos \<Rightarrow> bool" where
  "at_word_boundary q =
     ((case fst q of None \<Rightarrow> False | Some c \<Rightarrow> py_isword c)
      \<noteq> (case snd q of [] \<Rightarrow> False | c # cs \<Rightarrow> py_isword c))"

text \<open>
  \<open>rmatch r q\<close>: the positions at which a match of \<open>r\<close> that starts at \<open>q\<close> ends.
  \<^verbatim>\<open>$\<close> holds at the end of the string and before a newline that ends the string.
  An iteration of \<^verbatim>\<open>*\<close> that consumes nothing ends the repetition.
\<close>

fun rmatch :: "regex \<Rightarrow> pos \<Rightarrow> pos list" where
  "rmatch (Lit w) q =
     (if take (length w) (snd q) = w
      then [(if w = [] then fst q else Some (last w), drop (length w) (snd q))] else [])"
| "rmatch (OneOf cs) q = one_char (\<lambda>c. c \<in> set cs) q"
| "rmatch (NoneOf cs) q = one_char (\<lambda>c. c \<notin> set cs) q"
| "rmatch Space q = one_char py_isspace q"
| "rmatch Word q = one_char py_isword q"
| "rmatch Bol q = (if fst q = None then [q] else [])"
| "rmatch Eol q = (if snd q = [] \<or> snd q = [newline] then [q] else [])"
| "rmatch WordBoundary q = (if at_word_boundary q then [q] else [])"
| "rmatch (Seq r1 r2) q = concat (map (rmatch r2) (rmatch r1 q))"
| "rmatch (Alt r1 r2) q = rmatch r1 q @ rmatch r2 q"
| "rmatch (Star r) q =
     q # concat (map (\<lambda>q'. if length (snd q') < length (snd q) then rmatch (Star r) q' else [])
                     (rmatch r q))"

text \<open>\<^verbatim>\<open>re.match(r, s)\<close> and \<^verbatim>\<open>re.search(r, s)\<close>, as truth values.\<close>

definition re_match :: "regex \<Rightarrow> string \<Rightarrow> bool" where
  "re_match r s = (rmatch r (None, s) \<noteq> [])"

fun search_from :: "regex \<Rightarrow> char option \<Rightarrow> string \<Rightarrow> bool" where
  "search_from r p [] = (rmatch r (p, []) \<noteq> [])"
| "search_from r p (c # cs) =
     (if rmatch r (p, c # cs) \<noteq> [] then True else search_from r (Some c) cs)"

definition re_search :: "regex \<Rightarrow> string \<Rightarrow> bool" where
  "re_search r s = search_from r None s"

section \<open>The world a run sees\<close>

text \<open>
  What \<^verbatim>\<open>ast.parse(content)\<close> does: it returns, raises \<^verbatim>\<open>SyntaxError\<close> with
  \<^verbatim>\<open>lineno\<close>, \<^verbatim>\<open>offset\<close> (either may be \<^verbatim>\<open>None\<close>) and \<^verbatim>\<open>msg\<close>, or raises
  another exception (\<^verbatim>\<open>MemoryError\<close>, \<^verbatim>\<open>RecursionError\<close>, \<^verbatim>\<open>SystemError\<close>).
\<close>

datatype parse_outcome = Parsed | SyntaxError "int option" "int option" string | ParseRaises

datatype py_exception =
    FileNotFoundError | TimeoutExpired | SubprocessError | JSONDecodeError
  | KeyError | TypeError | AttributeError | IndexError

text \<open>\<^verbatim>\<open>subprocess.run(...)\<close>: it raises, or completes with a return code and its stdout.\<close>

datatype proc_outcome = ProcRaises py_exception | Completed int string

text \<open>
  Everything outside the program that one run reads: the clock, the three \<^verbatim>\<open>rglob\<close>
  listings in their order with what \<^verbatim>\<open>read_text\<close> gives for each path (\<open>None\<close> when
  it raises), the Python parser, the two linter processes and \<^verbatim>\<open>json.loads\<close>
  (\<open>None\<close> when it raises).
\<close>

record World =
  now :: string
  py_files :: "(string \<times> string option) list"
  js_files :: "(string \<times> string option) list"
  ts_files :: "(string \<times> string option) list"
  ast_parse :: "string \<Rightarrow> parse_outcome"
  flake8 :: proc_outcome
  eslint :: proc_outcome
  json_loads :: "string \<Rightarrow> pyval option"

section \<open>Pattern detectors\<close>

text \<open>\<^verbatim>\<open>for line_num, line in enumerate(lines, 1): body\<close>, the issues appended in order.\<close>

fun for_each_line :: "(int \<Rightarrow> string \<Rightarrow> CodeIssue list) \<Rightarrow> int \<Rightarrow> string list \<Rightarrow> CodeIssue list" where
  "for_each_line body line_num [] = []"
| "for_each_line body line_num (l # ls) = body line_num l @ for_each_line body (line_num + 1) ls"

subsection \<open>Python dialect (\<^verbatim>\<open>scan_python\<close>, lines 109-193)\<close>

text \<open>\<^verbatim>\<open>print\s*\([^)]*\)\<close>\<close>

definition print_call :: regex where
  "print_call =
     Seq (Lit ''print'') (Seq (Star Space) (Seq (Lit ''('') (Seq (Star (NoneOf '')'')) (Lit '')''))))"

text \<open>\<^verbatim>\<open>^\s*_+\w*$\<close>\<close>

definition unused_variable :: regex where
  "unused_variable = Seq Bol (Seq (Star Space) (Seq (Plus (Lit ''_'')) (Seq (Star Word) Eol)))"

definition quote_chars :: "char list" where
  "quote_chars = [CHR 0x27, CHR 0x22]"

text \<open>
  The table \<^verbatim>\<open>security_patterns\<close> (lines 165-174):
  \<^verbatim>\<open>os\.environ\[['\"]\w+['\"]\]\<close>, \<^verbatim>\<open>eval\s*\(\<close>, \<^verbatim>\<open>exec\s*\(\<close>, \<^verbatim>\<open>pickle\.load\<close>,
  \<^verbatim>\<open>yaml\.load\<close>, \<^verbatim>\<open>password\s*=\<close>, \<^verbatim>\<open>secret\s*=\<close>, \<^verbatim>\<open>api[_-]?key\s*=\<close>.
\<close>

definition security_patterns :: "(regex \<times> string \<times> Severity \<times> bool) list" where
  "security_patterns =
     [(Seq (Lit ''os.environ['') (Seq (OneOf quote_chars) (Seq (Plus Word) (Seq (OneOf quote_chars) (Lit '']'')))),
         ''Direct environment variable access'', HIGH, True),
      (Seq (Lit ''eval'') (Seq (Star Space) (Lit ''('')), ''Unsafe eval() usage'', CRITICAL, False),
      (Seq (Lit ''exec'') (Seq (Star Space) (Lit ''('')), ''Unsafe exec() usage'', CRITICAL, False),
      (Lit ''pickle.load'', ''pickle.load may be unsafe'', MEDIUM, True),
      (Lit ''yaml.load'', ''yaml.load without SafeLoader'', HIGH, True),
      (Seq (Lit ''password'') (Seq (Star Space) (Lit ''='')), ''Password in code'', HIGH, False),
      (Seq (Lit ''secret'') (Seq (Star Space) (Lit ''='')), ''Secret key in code'', HIGH, False),
      (Seq (Lit ''api'') (Seq (Opt (OneOf ''_-'')) (Seq (Lit ''key'') (Seq (Star Space) (Lit ''='')))),
         ''API key in code'', HIGH, False)]"

text \<open>\<^verbatim>\<open>_find_line_with_pattern\<close> (lines 250-255).\<close>

fun first_line_from :: "regex \<Rightarrow> int \<Rightarrow> string list \<Rightarrow> int" where
  "first_line_from pattern line_num [] = 1"
| "first_line_from pattern line_num (l # ls) =
     (if re_search pattern l then line_num else first_line_from pattern (line_num + 1) ls)"

definition find_line_with_pattern :: "string list \<Rightarrow> regex \<Rightarrow> int" where
  "find_line_with_pattern lines pattern = first_line_from pattern 1 lines"

text \<open>The body of the line loop (lines 122-146).\<close>

definition python_line_rules :: "string \<Rightarrow> int \<Rightarrow> string \<Rightarrow> CodeIssue list" where
  "python_line_rules py_file line_num l =
     (if re_search print_call l
      then [\<lparr> file_path = PStr py_file, line = PInt line_num, column = PInt (str_find l ''print''),
              severity = LOW, issue_type = CODE_SMELL,
              message = PStr ''print() usage for debugging'', rule_id = PNone,
              suggestion = Some ''Use logger instead of print'', fixable = True \<rparr>]
      else [])
     @ (if re_match unused_variable (str_strip l)
        then [\<lparr> file_path = PStr py_file, line = PInt line_num, column = PInt 0,
                severity = INFO, issue_type = UNUSED_CODE,
                message = PStr ''Unused variable'', rule_id = PNone,
                suggestion = None, fixable = True \<rparr>]
        else [])"

text \<open>\<^verbatim>\<open>x or d\<close> on an optional integer: \<^verbatim>\<open>None\<close> and 0 are falsy.\<close>

definition int_or :: "int option \<Rightarrow> int \<Rightarrow> int" where
  "int_or x d = (case x of None \<Rightarrow> d | Some n \<Rightarrow> if n = 0 then d else n)"

definition syntax_issue :: "string \<Rightarrow> int option \<Rightarrow> int option \<Rightarrow> string \<Rightarrow> CodeIssue" where
  "syntax_issue py_file lineno offset msg =
     \<lparr> file_path = PStr py_file, line = PInt (int_or lineno 1), column = PInt (int_or offset 0),
       severity = CRITICAL, issue_type = SYNTAX_ERROR,
       message = PStr (''Syntax error: '' @ msg), rule_id = PNone,
       suggestion = Some ''Review syntax on this line'', fixable = False \<rparr>"

text \<open>
  The loop over \<^verbatim>\<open>security_patterns\<close> (lines 176-188); \<open>security_message desc\<close> is
  the string \<^verbatim>\<open>f"Security: {desc}"\<close>.
\<close>

definition security_message :: "string \<Rightarrow> pyval" where
  "security_message desc = PStr (''Security: '' @ desc)"

definition security_issue :: "string \<Rightarrow> string list \<Rightarrow> regex \<times> string \<times> Severity \<times> bool \<Rightarrow> CodeIssue" where
  "security_issue py_file lines entry =
     (case entry of (pattern, desc, sev, fx) \<Rightarrow>
        \<lparr> file_path = PStr py_file, line = PInt (find_line_with_pattern lines pattern),
          column = PInt 0, severity = sev, issue_type = SECURITY_VULNERABILITY,
          message = security_message desc, rule_id = PNone,
          suggestion = Some ''Move to .env file'', fixable = fx \<rparr>)"

definition security_scan :: "string \<Rightarrow> string \<Rightarrow> string list \<Rightarrow> CodeIssue list" where
  "security_scan py_file content lines =
     concat (map (\<lambda>entry. if re_search (fst entry) content
                           then [security_issue py_file lines entry] else [])
                 security_patterns)"

text \<open>
  The body of \<^verbatim>\<open>for py_file in py_files\<close>. A \<^verbatim>\<open>read_text\<close> that raises leaves no
  issue; an exception of \<^verbatim>\<open>ast.parse\<close> other than \<^verbatim>\<open>SyntaxError\<close> reaches the outer
  handler after the line loop has appended its issues, and skips the security patterns.
\<close>

definition scan_python_file :: "(string \<Rightarrow> parse_outcome) \<Rightarrow> string \<times> string option \<Rightarrow> CodeIssue list" where
  "scan_python_file parse f =
     (case snd f of
        None \<Rightarrow> []
      | Some content \<Rightarrow>
          (let lines = split_lines content;
               line_issues = for_each_line (python_line_rules (fst f)) 1 lines
           in case parse content of
                Parsed \<Rightarrow> line_issues @ security_scan (fst f) content lines
              | SyntaxError lineno offset msg \<Rightarrow>
                  line_issues @ [syntax_issue (fst f) lineno offset msg]
                  @ security_scan (fst f) content lines
              | ParseRaises \<Rightarrow> line_issues))"

subsection \<open>JavaScript/TypeScript dialect (\<^verbatim>\<open>scan_javascript\<close>, lines 195-248)\<close>

text \<open>\<^verbatim>\<open>[^=!]==[^=]\<close>\<close>

definition loose_equality :: regex where
  "loose_equality = Seq (NoneOf ''=!'') (Seq (Lit ''=='') (NoneOf ''=''))"

text \<open>\<^verbatim>\<open>\bvar\s+\w+\<close>\<close>

definition var_declaration :: regex where
  "var_declaration = Seq WordBoundary (Seq (Lit ''var'') (Seq (Plus Space) (Plus Word)))"

text \<open>\<^verbatim>\<open>console\.(log|debug|info)\<close>\<close>

definition console_call :: regex where
  "console_call = Seq (Lit ''console.'') (Alt (Lit ''log'') (Alt (Lit ''debug'') (Lit ''info'')))"

definition javascript_line_rules :: "string \<Rightarrow> int \<Rightarrow> string \<Rightarrow> CodeIssue list" where
  "javascript_line_rules js_file line_num l =
     (if re_search loose_equality l
      then [\<lparr> file_path = PStr js_file, line = PInt line_num, column = PInt (str_find l ''==''),
              severity = MEDIUM, issue_type = CODE_SMELL,
              message = PStr ''Use === instead of =='', rule_id = PNone,
              suggestion = Some ''Use === for strict comparison'', fixable = True \<rparr>]
      else [])
     @ (if re_search var_declaration l
        then [\<lparr> file_path = PStr js_file, line = PInt line_num, column = PInt (str_find l ''var''),
                severity = LOW, issue_type = DEPRECATED_USAGE,
                message = PStr ''Use let/const instead of var'', rule_id = PNone,
                suggestion = Some ''Use let or const'', fixable = True \<rparr>]
        else [])
     @ (if re_search console_call l
        then [\<lparr> file_path = PStr js_file, line = PInt line_num, column = PInt (str_find l ''console''),
                severity = INFO, issue_type = CODE_SMELL,
                message = PStr ''Remaining console.log statement'', rule_id = PNone,
                suggestion = Some ''Remove or use logger'', fixable = True \<rparr>]
        else [])"

definition scan_javascript_file :: "string \<times> string option \<Rightarrow> CodeIssue list" where
  "scan_javascript_file f =
     (case snd f of
        None \<Rightarrow> []
      | Some content \<Rightarrow> for_each_line (javascript_line_rules (fst f)) 1 (split_lines content))"

section \<open>Linter adapters (\<^verbatim>\<open>run_linters\<close>, lines 257-330)\<close>

subsection \<open>Python operations on the parsed JSON\<close>

text \<open>\<^verbatim>\<open>for x in v\<close>: a list gives its elements, a dict its keys, a string its characters.\<close>

fun py_iter :: "pyval \<Rightarrow> py_exception + pyval list" where
  "py_iter (PList xs) = Inr xs"
| "py_iter (PDict kvs) = Inr (map (\<lambda>kv. PStr (fst kv)) kvs)"
| "py_iter (PStr s) = Inr (map (\<lambda>c. PStr [c]) s)"
| "py_iter v = Inl TypeError"

text \<open>\<^verbatim>\<open>v[k]\<close> for a string key \<^verbatim>\<open>k\<close>.\<close>

fun py_getitem :: "pyval \<Rightarrow> string \<Rightarrow> py_exception + pyval" where
  "py_getitem (PDict kvs) k = (case map_of kvs k of None \<Rightarrow> Inl KeyError | Some v \<Rightarrow> Inr v)"
| "py_getitem v k = Inl TypeError"

text \<open>\<^verbatim>\<open>v.get(k, dflt)\<close>: only a dict has the method.\<close>

fun py_get :: "pyval \<Rightarrow> string \<Rightarrow> pyval \<Rightarrow> py_exception + pyval" where
  "py_get (PDict kvs) k dflt = (case map_of kvs k of None \<Rightarrow> Inr dflt | Some v \<Rightarrow> Inr v)"
| "py_get v k dflt = Inl AttributeError"

fun py_truthy :: "pyval \<Rightarrow> bool" where
  "py_truthy PNone = False"
| "py_truthy (PBool b) = b"
| "py_truthy (PInt n) = (n \<noteq> 0)"
| "py_truthy (PStr s) = (s \<noteq> [])"
| "py_truthy (PList xs) = (xs \<noteq> [])"
| "py_truthy (PDict kvs) = (kvs \<noteq> [])"

text \<open>\<^verbatim>\<open>v[0]\<close>; the keys of a JSON object are strings, so 0 is never among them.\<close>

fun py_first :: "pyval \<Rightarrow> py_exception + pyval" where
  "py_first (PStr s) = (case s of [] \<Rightarrow> Inl IndexError | c # cs \<Rightarrow> Inr (PStr [c]))"
| "py_first (PList xs) = (case xs of [] \<Rightarrow> Inl IndexError | x # rest \<Rightarrow> Inr x)"
| "py_first (PDict kvs) = Inl KeyError"
| "py_first v = Inl TypeError"

text \<open>\<^verbatim>\<open>v == n\<close> for an integer literal \<^verbatim>\<open>n\<close>: \<^verbatim>\<open>True\<close> equals 1, \<^verbatim>\<open>False\<close> equals 0.\<close>

fun py_eq_int :: "pyval \<Rightarrow> int \<Rightarrow> bool" where
  "py_eq_int (PInt k) n = (k = n)"
| "py_eq_int (PBool b) n = ((if b then 1 else 0) = n)"
| "py_eq_int v n = False"

definition bind :: "py_exception + 'a \<Rightarrow> ('a \<Rightarrow> py_exception + 'b) \<Rightarrow> py_exception + 'b" where
  "bind m f = (case m of Inl e \<Rightarrow> Inl e | Inr x \<Rightarrow> f x)"

subsection \<open>Severity tables\<close>

definition map_flake8_severity :: "pyval \<Rightarrow> py_exception + Severity" where
  "map_flake8_severity code =
     bind (if py_truthy code then py_first code else Inr (PStr ''W''))
       (\<lambda>prefix. if prefix = PStr ''E'' then Inr HIGH
                  else if prefix = PStr ''F'' then Inr CRITICAL
                  else if prefix = PStr ''W'' then Inr LOW
                  else Inr MEDIUM)"

definition map_eslint_severity :: "pyval \<Rightarrow> Severity" where
  "map_eslint_severity sev =
     (if py_eq_int sev 2 then HIGH else if py_eq_int sev 1 then MEDIUM else LOW)"

subsection \<open>Adapter A: flake8 (lines 262-283)\<close>

text \<open>The \<^verbatim>\<open>CodeIssue(...)\<close> of one item; the arguments are evaluated in order.\<close>

definition flake8_issue :: "pyval \<Rightarrow> py_exception + CodeIssue" where
  "flake8_issue item =
     bind (py_getitem item ''filename'') (\<lambda>f.
     bind (py_getitem item ''line_number'') (\<lambda>ln.
     bind (py_getitem item ''column_number'') (\<lambda>col.
     bind (bind (py_getitem item ''type'') map_flake8_severity) (\<lambda>sev.
     bind (py_getitem item ''text'') (\<lambda>txt.
     bind (py_getitem item ''id'') (\<lambda>rid.
       Inr \<lparr> file_path = f, line = ln, column = col, severity = sev,
             issue_type = LINTING_ERROR, message = txt, rule_id = rid,
             suggestion = None, fixable = True \<rparr>))))))"

text \<open>
  \<^verbatim>\<open>for item in data: issues.append(...)\<close>. The issues appended before an exception stay
  in the list; the second component is the exception that ended the loop, if any.
\<close>

fun flake8_items :: "pyval list \<Rightarrow> CodeIssue list \<times> py_exception option" where
  "flake8_items [] = ([], None)"
| "flake8_items (item # rest) =
     (case flake8_issue item of
        Inl e \<Rightarrow> ([], Some e)
      | Inr i \<Rightarrow> (case flake8_items rest of (found, e) \<Rightarrow> (i # found, e)))"

text \<open>
  \<^verbatim>\<open>json.loads(result.stdout) if result.stdout else []\<close>, then the iteration over it.
\<close>

definition load_items :: "(string \<Rightarrow> pyval option) \<Rightarrow> string \<Rightarrow> py_exception + pyval list" where
  "load_items loads out =
     (if out \<noteq> []
      then (case loads out of None \<Rightarrow> Inl JSONDecodeError | Some data \<Rightarrow> py_iter data)
      else Inr [])"

text \<open>
  The first \<^verbatim>\<open>try\<close> block: the issues it appended, and the exception its handler caught.
\<close>

definition flake8_adapter :: "World \<Rightarrow> CodeIssue list \<times> py_exception option" where
  "flake8_adapter w =
     (case flake8 w of
        ProcRaises e \<Rightarrow> ([], Some e)
      | Completed returncode out \<Rightarrow>
          if returncode \<noteq> 0
          then (case load_items (json_loads w) out of
                  Inl e \<Rightarrow> ([], Some e)
                | Inr items \<Rightarrow> flake8_items items)
          else ([], None))"

subsection \<open>Adapter B: eslint (lines 286-309)\<close>

definition eslint_issue :: "pyval \<Rightarrow> pyval \<Rightarrow> py_exception + CodeIssue" where
  "eslint_issue item msg =
     bind (py_getitem item ''filePath'') (\<lambda>f.
     bind (py_getitem msg ''line'') (\<lambda>ln.
     bind (py_getitem msg ''column'') (\<lambda>col.
     bind (py_getitem msg ''severity'') (\<lambda>sev.
     bind (py_getitem msg ''message'') (\<lambda>txt.
     bind (py_getitem msg ''ruleId'') (\<lambda>rid.
     bind (py_get msg ''fix'' PNone) (\<lambda>fix.
       Inr \<lparr> file_path = f, line = ln, column = col, severity = map_eslint_severity sev,
             issue_type = LINTING_ERROR, message = txt, rule_id = rid,
             suggestion = None, fixable = (fix \<noteq> PNone) \<rparr>)))))))"

fun eslint_messages :: "pyval \<Rightarrow> pyval list \<Rightarrow> CodeIssue list \<times> py_exception option" where
  "eslint_messages item [] = ([], None)"
| "eslint_messages item (msg # rest) =
     (case eslint_issue item msg of
        Inl e \<Rightarrow> ([], Some e)
      | Inr i \<Rightarrow> (case eslint_messages item rest of (found, e) \<Rightarrow> (i # found, e)))"

fun eslint_items :: "pyval list \<Rightarrow> CodeIssue list \<times> py_exception option" where
  "eslint_items [] = ([], None)"
| "eslint_items (item # rest) =
     (case bind (py_get item ''messages'' (PList [])) py_iter of
        Inl e \<Rightarrow> ([], Some e)
      | Inr msgs \<Rightarrow>
          (case eslint_messages item msgs of
             (found, Some e) \<Rightarrow> (found, Some e)
           | (found, None) \<Rightarrow> (case eslint_items rest of (later, e) \<Rightarrow> (found @ later, e))))"

definition eslint_adapter :: "World \<Rightarrow> CodeIssue list \<times> py_exception option" where
  "eslint_adapter w =
     (case eslint w of
        ProcRaises e \<Rightarrow> ([], Some e)
      | Completed returncode out \<Rightarrow>
          if returncode \<noteq> 0
          then (case load_items (json_loads w) out of
                  Inl e \<Rightarrow> ([], Some e)
                | Inr items \<Rightarrow> eslint_items items)
          else ([], None))"

definition run_linters :: "World \<Rightarrow> CodeIssue list" where
  "run_linters w = fst (flake8_adapter w) @ fst (eslint_adapter w)"

section \<open>The analyzer (\<^verbatim>\<open>CodeAnalyzer\<close>, lines 101-371)\<close>

text \<open>
  The analyzer object holds the issue list and the result under construction; the project
  root is part of the world. What the methods print to the console is not modelled.
\<close>

record CodeAnalyzer =
  self_issues :: "CodeIssue list"
  result :: ScanResult

text \<open>\<^verbatim>\<open>CodeAnalyzer.__init__\<close>.\<close>

definition new_CodeAnalyzer :: "World \<Rightarrow> CodeAnalyzer" where
  "new_CodeAnalyzer w = \<lparr> self_issues = [], result = new_ScanResult (now w) \<rparr>"

text \<open>\<^verbatim>\<open>scan_python\<close>: the issues it returns and the analyzer with its counter advanced.\<close>

definition scan_python :: "World \<Rightarrow> CodeAnalyzer \<Rightarrow> CodeIssue list \<times> CodeAnalyzer" where
  "scan_python w self =
     (concat (map (scan_python_file (ast_parse w)) (py_files w)),
      self\<lparr>result := (result self)\<lparr>files_scanned :=
               files_scanned (result self) + int (length (py_files w))\<rparr>\<rparr>)"

text \<open>\<^verbatim>\<open>scan_javascript\<close>: it leaves the analyzer as it is.\<close>

definition scan_javascript :: "World \<Rightarrow> CodeIssue list" where
  "scan_javascript w = concat (map scan_javascript_file (js_files w @ ts_files w))"

definition analyze :: "World \<Rightarrow> CodeAnalyzer \<Rightarrow> ScanResult \<times> CodeAnalyzer" where
  "analyze w self =
     (case scan_python w self of (python_issues, self1) \<Rightarrow>
        (let js_issues = scan_javascript w;
             linter_issues = run_linters w;
             found = python_issues @ js_issues @ linter_issues;
             self2 = self1\<lparr>self_issues := found\<rparr>;
             self3 = self2\<lparr>result := (result self2)\<lparr>issues := self_issues self2\<rparr>\<rparr>;
             self4 = self3\<lparr>result := (result self3)\<lparr>issues_found := int (length (self_issues self3))\<rparr>\<rparr>;
             self5 = self4\<lparr>result := categorize (result self4) (self_issues self4)\<rparr>
         in (result self5, self5)))"

text \<open>
  One run, as \<^verbatim>\<open>main\<close> makes it: a new analyzer, one call of \<^verbatim>\<open>analyze\<close>, and the
  dictionary that is written out.
\<close>

definition run :: "World \<Rightarrow> ResultDict" where
  "run w = to_dict (fst (analyze w (new_CodeAnalyzer w)))"

text \<open>The list assembled at line 341 of a run: Python issues, then JavaScript, then linters.\<close>

definition found_issues :: "World \<Rightarrow> CodeIssue list" where
  "found_issues w = fst (scan_python w (new_CodeAnalyzer w)) @ scan_javascript w @ run_linters w"

text \<open>The issues of the two pattern detectors, in the order of a run.\<close>

definition pattern_issues :: "World \<Rightarrow> CodeIssue list" where
  "pattern_issues w = fst (scan_python w (new_CodeAnalyzer w)) @ scan_javascript w"

text \<open>
  The invocation of a linter fails: \<^verbatim>\<open>subprocess.run\<close> raises (the tool is not installed,
  a subprocess error, the timeout), or the output that the adapter goes on to read is not
  JSON.
\<close>

definition invocation_fails :: "(string \<Rightarrow> pyval option) \<Rightarrow> proc_outcome \<Rightarrow> bool" where
  "invocation_fails loads p =
     (case p of
        ProcRaises e \<Rightarrow> True
      | Completed returncode out \<Rightarrow> returncode \<noteq> 0 \<and> out \<noteq> [] \<and> loads out = None)"

text \<open>The column of an issue is an integer and not negative.\<close>

definition column_ok :: "CodeIssue \<Rightarrow> bool" where
  "column_ok i = (case column i of PInt c \<Rightarrow> 0 \<le> c | _ \<Rightarrow> False)"

text \<open>The issue of the loose-equality rule for a line (lines 208-217).\<close>

definition loose_equality_issue :: "string \<Rightarrow> int \<Rightarrow> string \<Rightarrow> CodeIssue" where
  "loose_equality_issue js_file line_num l =
     \<lparr> file_path = PStr js_file, line = PInt line_num, column = PInt (str_find l ''==''),
       severity = MEDIUM, issue_type = CODE_SMELL,
       message = PStr ''Use === instead of =='', rule_id = PNone,
       suggestion = Some ''Use === for strict comparison'', fixable = True \<rparr>"

section \<open>Example worlds\<close>

text \<open>
  A tree without source files in which flake8 reports one finding of class \<^verbatim>\<open>F\<close> and
  eslint is not installed.
\<close>

definition flake8_report :: string where
  \<open>flake8_report = ''[{"filename": "./app.py", "line_number": 1, "column_number": 1, "type": "F", "text": "unused import", "id": "F401"}]''\<close>

definition flake8_finding :: pyval where
  "flake8_finding =
     PDict [(''filename'', PStr ''./app.py''), (''line_number'', PInt 1), (''column_number'', PInt 1),
            (''type'', PStr ''F''), (''text'', PStr ''unused import''), (''id'', PStr ''F401'')]"

definition world_flake8 :: World where
  "world_flake8 =
     \<lparr> now = ''2024-01-01T00:00:00'', py_files = [], js_files = [], ts_files = [],
       ast_parse = (\<lambda>c. Parsed),
       flake8 = Completed 1 flake8_report,
       eslint = ProcRaises FileNotFoundError,
       json_loads = (\<lambda>s. if s = flake8_report then Some (PList [flake8_finding]) else None) \<rparr>"

text \<open>A tree with one JavaScript file and no linter installed.\<close>

definition world_js_only :: World where
  "world_js_only =
     \<lparr> now = ''2024-01-01T00:00:00'', py_files = [],
       js_files = [(''app.js'', Some ''var x = 1'')], ts_files = [],
       ast_parse = (\<lambda>c. Parsed),
       flake8 = ProcRaises FileNotFoundError,
       eslint = ProcRaises FileNotFoundError,
       json_loads = (\<lambda>s. None) \<rparr>"

text \<open>
  The same tree a minute later, with the \<^verbatim>\<open>npx\<close> launcher present and eslint running
  into the timeout.
\<close>

definition world_js_later :: World where
  "world_js_later = world_js_only\<lparr> now := ''2024-01-01T00:01:00'', eslint := ProcRaises TimeoutExpired \<rparr>"

text \<open>
  flake8 reports two findings, the second without its keys; eslint prints text that is not
  JSON.
\<close>

definition flake8_partial_report :: string where
  \<open>flake8_partial_report = ''[{"filename": "./app.py", "line_number": 1, "column_number": 1, "type": "F", "text": "unused import", "id": "F401"}, {}]''\<close>

definition world_flake8_partial :: World where
  "world_flake8_partial =
     \<lparr> now = ''2024-01-01T00:00:00'', py_files = [], js_files = [], ts_files = [],
       ast_parse = (\<lambda>c. Parsed),
       flake8 = Completed 1 flake8_partial_report,
       eslint = Completed 2 ''Oops! Something went wrong!'',
       json_loads = (\<lambda>s. if s = flake8_partial_report
                           then Some (PList [flake8_finding, PDict []]) else None) \<rparr>"

text \<open>
  A tree with one Python file, \<^verbatim>\<open>print((1)\<close>, whose parenthesis is never closed; the
  parser reports the end of input, line 1, offset 10.
\<close>

definition world_syntax :: World where
  "world_syntax =
     \<lparr> now = ''2024-01-01T00:00:00'',
       py_files = [(''bad.py'', Some ''print((1)'')], js_files = [], ts_files = [],
       ast_parse = (\<lambda>c. if c = ''print((1)''
                         then SyntaxError (Some 1) (Some 10) ''unexpected EOF while parsing''
                         else Parsed),
       flake8 = ProcRaises FileNotFoundError,
       eslint = ProcRaises FileNotFoundError,
       json_loads = (\<lambda>s. None) \<rparr>"

text \<open>A JavaScript file with a loose comparison on line 5 and a \<^verbatim>\<open>var\<close> on line 6.\<close>

definition js_example :: string where
  "js_example = ''function same(a, b) {'' @ [newline] @ ''  let y = 0'' @ [newline] @ ''''
      @ [newline] @ ''  // compare'' @ [newline] @ ''  if (a == b)'' @ [newline] @ ''    var x = 1''"

text \<open>
  A Python file whose third line reads an environment variable by subscript, and the first
  expression of the table, \<^verbatim>\<open>os\.environ\[['\"]\w+['\"]\]\<close>.
\<close>

definition env_example :: string where
  "env_example = ''import os'' @ [newline] @ '''' @ [newline]
      @ ''token = os.environ['' @ [CHR 0x22] @ ''SECRET'' @ [CHR 0x22] @ '']''"

definition environ_pattern :: regex where
  "environ_pattern =
     Seq (Lit ''os.environ['') (Seq (OneOf quote_chars) (Seq (Plus Word) (Seq (OneOf quote_chars) (Lit '']''))))"

text \<open>
  A Python source that assigns an f-string whose replacement field breaks off after an
  operator on its second line.
\<close>

definition broken_fstring :: "string \<Rightarrow> string" where
  "broken_fstring name =
     name @ '' = f'' @ replicate 3 (CHR 0x27) @ ''{'' @ [newline] @ ''1 +'' @ [newline]
     @ ''}'' @ replicate 3 (CHR 0x27)"

text \<open>
  A tree with that file as \<^verbatim>\<open>x = ...\<close>, parsed by CPython 3.11.2: the parser reports a
  syntax error at the negative offset -3.
\<close>

definition world_negative_offset :: World where
  "world_negative_offset =
     \<lparr> now = ''2024-01-01T00:00:00'',
       py_files = [(''fmt.py'', Some (broken_fstring ''x''))], js_files = [], ts_files = [],
       ast_parse = (\<lambda>c. if c = broken_fstring ''x''
                         then SyntaxError (Some 3) (Some (- 3)) ''f-string: invalid syntax''
                         else Parsed),
       flake8 = ProcRaises FileNotFoundError,
       eslint = ProcRaises FileNotFoundError,
       json_loads = (\<lambda>s. None) \<rparr>"

text \<open>
  The sixth expression of the table, \<^verbatim>\<open>password\s*=\<close>, and a tree with the file as
  \<^verbatim>\<open>password = ...\<close>, parsed by CPython 3.11.10: \<^verbatim>\<open>ast.parse\<close> raises
  \<^verbatim>\<open>SystemError\<close> on it.
\<close>

definition password_pattern :: regex where
  "password_pattern = Seq (Lit ''password'') (Seq (Star Space) (Lit ''=''))"

definition world_parser_raises :: World where
  "world_parser_raises =
     \<lparr> now = ''2024-01-01T00:00:00'',
       py_files = [(''conf.py'', Some (broken_fstring ''password''))], js_files = [], ts_files = [],
       ast_parse = (\<lambda>c. if c = broken_fstring ''password'' then ParseRaises else Parsed),
       flake8 = ProcRaises FileNotFoundError,
       eslint = ProcRaises FileNotFoundError,
       json_loads = (\<lambda>s. None) \<rparr>"

section \<open>The aggregation loop\<close>

lemma bump_sum:
  "sum_list (map snd (AList.update k (dict_get d k 0 + 1) d)) = sum_list (map snd d) + 1"
proof -
  have "sum_list (map snd (AList.update k (dict_get d k 0 + v) d)) = sum_list (map snd d) + v" for v
    by (induction d) (auto simp: dict_get_def)
  then show ?thesis .
qed

lemma categorize_step_sums:
  "sum_list (dict_values (issues_by_severity (categorize_step r i)))
     = sum_list (dict_values (issues_by_severity r)) + 1"
  "sum_list (dict_values (issues_by_type (categorize_step r i)))
     = sum_list (dict_values (issues_by_type r)) + 1"
  by (simp_all add: categorize_step_def Let_def dict_values_def bump_sum)

lemma categorize_step_lists:
  "critical_issues (categorize_step r i) = critical_issues r @ filter (\<lambda>i. severity i = CRITICAL) [i]"
  "auto_fixable_issues (categorize_step r i) = auto_fixable_issues r @ filter fixable [i]"
  by (simp_all add: categorize_step_def Let_def)

lemma categorize_step_kept:
  "issues (categorize_step r i) = issues r"
  "issues_found (categorize_step r i) = issues_found r"
  "files_scanned (categorize_step r i) = files_scanned r"
  "timestamp (categorize_step r i) = timestamp r"
  by (simp_all add: categorize_step_def Let_def)

lemma categorize_sums:
  "sum_list (dict_values (issues_by_severity (categorize r xs)))
     = sum_list (dict_values (issues_by_severity r)) + int (length xs)"
  "sum_list (dict_values (issues_by_type (categorize r xs)))
     = sum_list (dict_values (issues_by_type r)) + int (length xs)"
  by (induction xs arbitrary: r) (simp_all add: categorize_step_sums)

lemma categorize_lists:
  "critical_issues (categorize r xs) = critical_issues r @ filter (\<lambda>i. severity i = CRITICAL) xs"
  "auto_fixable_issues (categorize r xs) = auto_fixable_issues r @ filter fixable xs"
  by (induction xs arbitrary: r) (simp_all add: categorize_step_lists)

lemma categorize_kept:
  "issues (categorize r xs) = issues r"
  "issues_found (categorize r xs) = issues_found r"
  "files_scanned (categorize r xs) = files_scanned r"
  "timestamp (categorize r xs) = timestamp r"
  by (induction xs arbitrary: r) (simp_all add: categorize_step_kept)

text \<open>What \<^verbatim>\<open>analyze\<close> returns on a new analyzer, and the dictionary of the run.\<close>

lemma analyze_new:
  "fst (analyze w (new_CodeAnalyzer w)) =
     categorize ((new_ScanResult (now w))\<lparr>files_scanned := int (length (py_files w)),
                   issues := found_issues w, issues_found := int (length (found_issues w))\<rparr>)
       (found_issues w)"
  by (simp add: analyze_def scan_python_def new_CodeAnalyzer_def Let_def found_issues_def
      new_ScanResult_def)

lemma run_summary:
  "total_issues (summary (run w)) = int (length (found_issues w))"
  "sum_list (dict_values (by_severity (summary (run w)))) = int (length (found_issues w))"
  "sum_list (dict_values (by_type (summary (run w)))) = int (length (found_issues w))"
  "s_files_scanned (summary (run w)) = int (length (py_files w))"
  "all_issues (run w) = map issue_to_dict (found_issues w)"
  "r_critical_issues (run w) = map issue_to_dict (filter (\<lambda>i. severity i = CRITICAL) (found_issues w))"
  "r_auto_fixable_issues (run w) = map issue_to_dict (filter fixable (found_issues w))"
  "critical_count (summary (run w)) = int (length (filter (\<lambda>i. severity i = CRITICAL) (found_issues w)))"
  "auto_fixable_count (summary (run w)) = int (length (filter fixable (found_issues w)))"
  "r_timestamp (run w) = now w"
  by (simp_all add: run_def to_dict_def analyze_new categorize_kept categorize_sums categorize_lists)
     (simp_all add: new_ScanResult_def dict_values_def)

text \<open>
  C1. In the dictionary of every run, \<^verbatim>\<open>total_issues\<close> is the length of
  \<^verbatim>\<open>all_issues\<close>, and the values of \<^verbatim>\<open>by_severity\<close> and of \<^verbatim>\<open>by_type\<close> each sum
  to \<^verbatim>\<open>total_issues\<close>.
\<close>

theorem summary_counts_total:
  "total_issues (summary (run w)) = int (length (all_issues (run w)))
   \<and> sum_list (dict_values (by_severity (summary (run w)))) = total_issues (summary (run w))
   \<and> sum_list (dict_values (by_type (summary (run w)))) = total_issues (summary (run w))"
  by (simp add: run_summary)

lemma severity_value_critical: "(severity_value s = ''critical'') = (s = CRITICAL)"
  by (cases s) simp_all

lemma filter_critical_dict:
  "map issue_to_dict (filter (\<lambda>i. severity i = CRITICAL) xs)
     = filter (\<lambda>d. d_severity d = ''critical'') (map issue_to_dict xs)"
  by (induction xs) (simp_all add: issue_to_dict_def severity_value_critical)

lemma filter_fixable_dict:
  "map issue_to_dict (filter fixable xs) = filter d_fixable (map issue_to_dict xs)"
  by (induction xs) (simp_all add: issue_to_dict_def)

text \<open>
  C3. In the dictionary of every run, \<^verbatim>\<open>critical_issues\<close> is the subsequence of
  \<^verbatim>\<open>all_issues\<close> with severity \<^verbatim>\<open>critical\<close>, in order, and \<^verbatim>\<open>critical_count\<close> its
  length; \<^verbatim>\<open>auto_fixable_issues\<close> is the subsequence of the fixable ones, in order, and
  \<^verbatim>\<open>auto_fixable_count\<close> its length; an issue that is critical and fixable is in both.
\<close>

theorem critical_and_fixable_subsets:
  "r_critical_issues (run w) = filter (\<lambda>d. d_severity d = ''critical'') (all_issues (run w))
   \<and> critical_count (summary (run w)) = int (length (r_critical_issues (run w)))
   \<and> r_auto_fixable_issues (run w) = filter d_fixable (all_issues (run w))
   \<and> auto_fixable_count (summary (run w)) = int (length (r_auto_fixable_issues (run w)))
   \<and> (\<forall>d \<in> set (all_issues (run w)). d_severity d = ''critical'' \<and> d_fixable d \<longrightarrow>
         d \<in> set (r_critical_issues (run w)) \<and> d \<in> set (r_auto_fixable_issues (run w)))"
proof -
  have crit: "r_critical_issues (run w) = filter (\<lambda>d. d_severity d = ''critical'') (all_issues (run w))"
    by (simp only: run_summary filter_critical_dict)
  have fixb: "r_auto_fixable_issues (run w) = filter d_fixable (all_issues (run w))"
    by (simp only: run_summary filter_fixable_dict)
  have n_crit: "critical_count (summary (run w)) = int (length (r_critical_issues (run w)))"
    by (simp only: run_summary length_map)
  have n_fixb: "auto_fixable_count (summary (run w)) = int (length (r_auto_fixable_issues (run w)))"
    by (simp only: run_summary length_map)
  have both: "\<forall>d \<in> set (all_issues (run w)). d_severity d = ''critical'' \<and> d_fixable d \<longrightarrow>
         d \<in> set (r_critical_issues (run w)) \<and> d \<in> set (r_auto_fixable_issues (run w))"
    unfolding crit fixb by simp
  from crit n_crit fixb n_fixb both show ?thesis by blast
qed

lemma found_world_flake8:
  "found_issues world_flake8 =
     [\<lparr> file_path = PStr ''./app.py'', line = PInt 1, column = PInt 1, severity = CRITICAL,
        issue_type = LINTING_ERROR, message = PStr ''unused import'',
        rule_id = PStr ''F401'', suggestion = None, fixable = True \<rparr>]"
  by (simp add: found_issues_def scan_python_def scan_javascript_def run_linters_def
      flake8_adapter_def eslint_adapter_def world_flake8_def load_items_def flake8_report_def
      flake8_finding_def flake8_issue_def bind_def map_flake8_severity_def)

theorem critical_and_fixable_subsets_witness:
  "(let d = issue_to_dict
        \<lparr> file_path = PStr ''./app.py'', line = PInt 1, column = PInt 1, severity = CRITICAL,
          issue_type = LINTING_ERROR, message = PStr ''unused import'',
          rule_id = PStr ''F401'', suggestion = None, fixable = True \<rparr>
    in d \<in> set (all_issues (run world_flake8)) \<and> d_severity d = ''critical'' \<and> d_fixable d
       \<and> d \<in> set (r_critical_issues (run world_flake8))
       \<and> d \<in> set (r_auto_fixable_issues (run world_flake8)))"
  using critical_and_fixable_subsets [of world_flake8]
  by (simp add: run_summary found_world_flake8 issue_to_dict_def)

section \<open>File counter, linter adapters and repeated runs\<close>

lemma found_world_js_only:
  "found_issues world_js_only =
     [\<lparr> file_path = PStr ''app.js'', line = PInt 1, column = PInt 0,
        severity = LOW, issue_type = DEPRECATED_USAGE,
        message = PStr ''Use let/const instead of var'', rule_id = PNone,
        suggestion = Some ''Use let or const'', fixable = True \<rparr>]"
  by code_simp

text \<open>
  C2. \<^verbatim>\<open>files_scanned\<close> is to be the number of files matched by the three globs. In
  every run it is the number of \<^verbatim>\<open>*.py\<close> files alone: \<^verbatim>\<open>scan_javascript\<close> never adds
  to the counter that \<^verbatim>\<open>scan_python\<close> advances. In a tree whose only source file is
  \<^verbatim>\<open>app.js\<close> the JavaScript detector scans that file and reports from it, and
  \<^verbatim>\<open>files_scanned\<close> is 0.
\<close>

theorem files_scanned_omits_javascript:
  "s_files_scanned (summary (run w)) = int (length (py_files w))
   \<and> s_files_scanned (summary (run world_js_only)) = 0
   \<and> int (length (py_files world_js_only)) + int (length (js_files world_js_only))
       + int (length (ts_files world_js_only)) = 1
   \<and> map d_file (all_issues (run world_js_only)) = [PStr ''app.js'']"
  by (simp add: run_summary found_world_js_only issue_to_dict_def) (simp add: world_js_only_def)

lemma adapter_raises:
  "flake8 w = ProcRaises e \<Longrightarrow> flake8_adapter w = ([], Some e)"
  "eslint w = ProcRaises e \<Longrightarrow> eslint_adapter w = ([], Some e)"
  by (simp_all add: flake8_adapter_def eslint_adapter_def)

lemma adapter_fails:
  "invocation_fails (json_loads w) (flake8 w) \<Longrightarrow> fst (flake8_adapter w) = [] \<and> snd (flake8_adapter w) \<noteq> None"
  "invocation_fails (json_loads w) (eslint w) \<Longrightarrow> fst (eslint_adapter w) = [] \<and> snd (eslint_adapter w) \<noteq> None"
  by (auto simp: invocation_fails_def flake8_adapter_def eslint_adapter_def load_items_def
      split: proc_outcome.splits)

lemma found_issues_split:
  "found_issues w = pattern_issues w @ fst (flake8_adapter w) @ fst (eslint_adapter w)"
  by (simp add: found_issues_def pattern_issues_def run_linters_def)

text \<open>
  C8, as amended. An adapter whose invocation fails (\<^verbatim>\<open>subprocess.run\<close> raises, or the
  output it reads is not JSON) contributes no issue; every run returns its result, the
  pattern issues followed by what the two adapters appended; and when both invocations fail,
  as they do when no linter is installed, the result holds the pattern-detector findings only.
\<close>

theorem failed_linter_contributes_nothing:
  "(invocation_fails (json_loads w) (flake8 w) \<longrightarrow> fst (flake8_adapter w) = [])
   \<and> (invocation_fails (json_loads w) (eslint w) \<longrightarrow> fst (eslint_adapter w) = [])
   \<and> all_issues (run w)
       = map issue_to_dict (pattern_issues w @ fst (flake8_adapter w) @ fst (eslint_adapter w))
   \<and> (invocation_fails (json_loads w) (flake8 w) \<and> invocation_fails (json_loads w) (eslint w) \<longrightarrow>
        all_issues (run w) = map issue_to_dict (pattern_issues w)
        \<and> total_issues (summary (run w)) = int (length (pattern_issues w))
        \<and> critical_count (summary (run w))
            = int (length (filter (\<lambda>i. severity i = CRITICAL) (pattern_issues w))))"
  by (auto simp: adapter_fails run_summary found_issues_split)

theorem failed_linter_contributes_nothing_witness:
  "invocation_fails (json_loads world_js_later) (flake8 world_js_later)
   \<and> fst (flake8_adapter world_js_later) = []
   \<and> invocation_fails (json_loads world_js_later) (eslint world_js_later)
   \<and> fst (eslint_adapter world_js_later) = []
   \<and> flake8 world_js_later = ProcRaises FileNotFoundError
   \<and> eslint world_js_later = ProcRaises TimeoutExpired
   \<and> map d_message (all_issues (run world_js_later)) = [PStr ''Use let/const instead of var'']
   \<and> total_issues (summary (run world_js_later)) = 1
   \<and> critical_count (summary (run world_js_later)) = 0"
proof -
  have a: "invocation_fails (json_loads world_js_later) (flake8 world_js_later)"
    "invocation_fails (json_loads world_js_later) (eslint world_js_later)"
    by (simp_all add: invocation_fails_def world_js_later_def world_js_only_def)
  have c: "flake8 world_js_later = ProcRaises FileNotFoundError"
    "eslint world_js_later = ProcRaises TimeoutExpired"
    by (simp_all add: world_js_later_def world_js_only_def)
  have d: "pattern_issues world_js_later =
     [\<lparr> file_path = PStr ''app.js'', line = PInt 1, column = PInt 0,
        severity = LOW, issue_type = DEPRECATED_USAGE,
        message = PStr ''Use let/const instead of var'', rule_id = PNone,
        suggestion = Some ''Use let or const'', fixable = True \<rparr>]"
    by code_simp
  show ?thesis
    using failed_linter_contributes_nothing [of world_js_later] a c
    by (simp add: d issue_to_dict_def)
qed

lemma flake8_adapter_partial:
  "flake8_adapter world_flake8_partial =
     ([\<lparr> file_path = PStr ''./app.py'', line = PInt 1, column = PInt 1, severity = CRITICAL,
         issue_type = LINTING_ERROR, message = PStr ''unused import'',
         rule_id = PStr ''F401'', suggestion = None, fixable = True \<rparr>], Some KeyError)"
  by (simp add: flake8_adapter_def world_flake8_partial_def load_items_def flake8_partial_report_def
      flake8_finding_def flake8_issue_def bind_def map_flake8_severity_def)

lemma eslint_adapter_partial:
  "eslint_adapter world_flake8_partial = ([], Some JSONDecodeError)"
  by (simp add: eslint_adapter_def world_flake8_partial_def load_items_def flake8_partial_report_def)

text \<open>
  C8, as stated, fails: when flake8 prints a list whose second entry lacks its keys, the
  adapter raises \<^verbatim>\<open>KeyError\<close> and its handler runs, yet the issue appended for the first
  entry stays in the result.
\<close>

theorem partial_linter_output_counterexample:
  "snd (flake8_adapter world_flake8_partial) = Some KeyError
   \<and> map rule_id (fst (flake8_adapter world_flake8_partial)) = [PStr ''F401'']
   \<and> map d_rule_id (all_issues (run world_flake8_partial)) = [PStr ''F401'']"
  by (simp add: run_summary found_issues_split flake8_adapter_partial eslint_adapter_partial
      issue_to_dict_def)
     (simp add: pattern_issues_def scan_python_def scan_javascript_def world_flake8_partial_def)

lemma pattern_issues_cong:
  assumes "py_files w2 = py_files w1" and "js_files w2 = js_files w1"
    and "ts_files w2 = ts_files w1" and "ast_parse w2 = ast_parse w1"
  shows "pattern_issues w2 = pattern_issues w1"
  using assms by (simp add: pattern_issues_def scan_python_def scan_javascript_def)

lemma categorize_step_timestamp:
  "categorize_step (r\<lparr>timestamp := t\<rparr>) i = (categorize_step r i)\<lparr>timestamp := t\<rparr>"
  by (simp add: categorize_step_def Let_def)

lemma categorize_timestamp:
  "categorize (r\<lparr>timestamp := t\<rparr>) xs = (categorize r xs)\<lparr>timestamp := t\<rparr>"
  by (induction xs arbitrary: r) (simp_all add: categorize_step_timestamp)

lemma to_dict_timestamp: "to_dict (r\<lparr>timestamp := t\<rparr>) = (to_dict r)\<lparr>r_timestamp := t\<rparr>"
  by (simp add: to_dict_def)

lemma run_depends:
  assumes "found_issues w2 = found_issues w1" and "py_files w2 = py_files w1"
  shows "run w2 = (run w1)\<lparr> r_timestamp := now w2 \<rparr>"
proof -
  have "fst (analyze w2 (new_CodeAnalyzer w2))
          = (fst (analyze w1 (new_CodeAnalyzer w1)))\<lparr>timestamp := now w2\<rparr>"
    unfolding analyze_new assms
    by (simp add: categorize_timestamp [symmetric] new_ScanResult_def)
  then show ?thesis
    by (simp add: run_def to_dict_timestamp)
qed

text \<open>
  C9. Two runs over the same tree (the same listings, file contents and parser), in each of
  which both linter invocations fail, give the same \<^verbatim>\<open>all_issues\<close>; their dictionaries
  differ in the timestamp at most.
\<close>

theorem rerun_same_issues:
  assumes "py_files w2 = py_files w1" and "js_files w2 = js_files w1"
    and "ts_files w2 = ts_files w1" and "ast_parse w2 = ast_parse w1"
    and "invocation_fails (json_loads w1) (flake8 w1)"
    and "invocation_fails (json_loads w1) (eslint w1)"
    and "invocation_fails (json_loads w2) (flake8 w2)"
    and "invocation_fails (json_loads w2) (eslint w2)"
  shows "all_issues (run w2) = all_issues (run w1)
         \<and> run w2 = (run w1)\<lparr> r_timestamp := now w2 \<rparr>"
proof -
  have f: "found_issues w2 = found_issues w1"
    using assms by (simp add: found_issues_split adapter_fails pattern_issues_cong [of w2 w1])
  from f have "all_issues (run w2) = all_issues (run w1)"
    by (simp add: run_summary)
  moreover from f assms(1) have "run w2 = (run w1)\<lparr> r_timestamp := now w2 \<rparr>"
    by (rule run_depends)
  ultimately show ?thesis by simp
qed

theorem rerun_same_issues_witness:
  "now world_js_later \<noteq> now world_js_only
   \<and> all_issues (run world_js_later) = all_issues (run world_js_only)
   \<and> run world_js_later = (run world_js_only)\<lparr> r_timestamp := ''2024-01-01T00:01:00'' \<rparr>
   \<and> map d_line (all_issues (run world_js_only)) = [PInt 1]"
proof -
  have d: "found_issues world_js_only =
     [\<lparr> file_path = PStr ''app.js'', line = PInt 1, column = PInt 0,
        severity = LOW, issue_type = DEPRECATED_USAGE,
        message = PStr ''Use let/const instead of var'', rule_id = PNone,
        suggestion = Some ''Use let or const'', fixable = True \<rparr>]"
    by code_simp
  have "py_files world_js_later = py_files world_js_only"
    "js_files world_js_later = js_files world_js_only"
    "ts_files world_js_later = ts_files world_js_only"
    "ast_parse world_js_later = ast_parse world_js_only"
    "invocation_fails (json_loads world_js_only) (flake8 world_js_only)"
    "invocation_fails (json_loads world_js_only) (eslint world_js_only)"
    "invocation_fails (json_loads world_js_later) (flake8 world_js_later)"
    "invocation_fails (json_loads world_js_later) (eslint world_js_later)"
    by (simp_all add: world_js_later_def world_js_only_def invocation_fails_def)
  from rerun_same_issues [OF this]
  show ?thesis
    by (simp add: run_summary d issue_to_dict_def) (simp add: world_js_later_def world_js_only_def)
qed

section \<open>Pattern detectors: columns\<close>

lemma find_from_here: "take (length sub) s = sub \<Longrightarrow> find_from sub s i = i"
  by (cases s) auto

lemma find_from_lower: "s = pre @ sub @ post \<Longrightarrow> i \<le> find_from sub s i"
proof (induction pre arbitrary: s i)
  case Nil
  then have "take (length sub) s = sub" by simp
  then show ?case by (simp add: find_from_here)
next
  case (Cons a pre)
  then obtain cs where s: "s = a # cs" and cs: "cs = pre @ sub @ post" by simp
  from Cons.IH [OF cs, of "i + 1"] show ?case by (simp add: s)
qed

lemma str_find_nonneg: "\<exists>pre post. s = pre @ sub @ post \<Longrightarrow> 0 \<le> str_find s sub"
  unfolding str_find_def by (auto intro: find_from_lower)

lemma rmatch_Lit_Seq:
  "rmatch (Seq (Lit w) r) (p, s) \<noteq> [] \<Longrightarrow> \<exists>post. s = w @ post"
proof -
  assume "rmatch (Seq (Lit w) r) (p, s) \<noteq> []"
  then have "take (length w) s = w" by (auto split: if_splits)
  then have "s = w @ drop (length w) s" by (metis append_take_drop_id)
  then show ?thesis ..
qed

lemma search_from_contains:
  assumes "\<And>p' s'. rmatch r (p', s') \<noteq> [] \<Longrightarrow> \<exists>pre post. s' = pre @ w @ post"
  shows "search_from r p s \<Longrightarrow> \<exists>pre post. s = pre @ w @ post"
proof (induction s arbitrary: p)
  case Nil
  then show ?case using assms [of p "[]"] by simp
next
  case (Cons c cs)
  show ?case
  proof (cases "rmatch r (p, c # cs) \<noteq> []")
    case True
    then show ?thesis by (rule assms)
  next
    case False
    with Cons.prems have "search_from r (Some c) cs" by simp
    from Cons.IH [OF this] obtain pre post where "cs = pre @ w @ post" by blast
    then have "c # cs = (c # pre) @ w @ post" by simp
    then show ?thesis by blast
  qed
qed

lemma print_call_column: "re_search print_call l \<Longrightarrow> 0 \<le> str_find l ''print''"
  unfolding re_search_def print_call_def
proof (rule str_find_nonneg, erule search_from_contains [rotated])
  fix p' s'
  assume "rmatch (Seq (Lit ''print'') (Seq (Star Space) (Seq (Lit ''('') (Seq (Star (NoneOf '')'')) (Lit '')''))))) (p', s') \<noteq> []"
  from rmatch_Lit_Seq [OF this] obtain post where "s' = [] @ ''print'' @ post" by auto
  then show "\<exists>pre post. s' = pre @ ''print'' @ post" by blast
qed

lemma var_declaration_column: "re_search var_declaration l \<Longrightarrow> 0 \<le> str_find l ''var''"
  unfolding re_search_def var_declaration_def
proof (rule str_find_nonneg, erule search_from_contains [rotated])
  fix p' s'
  assume "rmatch (Seq WordBoundary (Seq (Lit ''var'') (Seq (Plus Space) (Plus Word)))) (p', s') \<noteq> []"
  then have "rmatch (Seq (Lit ''var'') (Seq (Plus Space) (Plus Word))) (p', s') \<noteq> []"
    by (simp split: if_splits)
  from rmatch_Lit_Seq [OF this] obtain post where "s' = [] @ ''var'' @ post" by auto
  then show "\<exists>pre post. s' = pre @ ''var'' @ post" by blast
qed

lemma console_call_column: "re_search console_call l \<Longrightarrow> 0 \<le> str_find l ''console''"
  unfolding re_search_def console_call_def
proof (rule str_find_nonneg, erule search_from_contains [rotated])
  fix p' s'
  assume "rmatch (Seq (Lit ''console.'') (Alt (Lit ''log'') (Alt (Lit ''debug'') (Lit ''info'')))) (p', s') \<noteq> []"
  from rmatch_Lit_Seq [OF this] obtain post where "s' = [] @ ''console'' @ (''.'' @ post)" by auto
  then show "\<exists>pre post. s' = pre @ ''console'' @ post" by blast
qed

lemma loose_equality_at:
  "rmatch loose_equality (p, s) \<noteq> [] \<longleftrightarrow>
     (\<exists>a b post. s = a # ''=='' @ b # post \<and> a \<noteq> CHR ''='' \<and> a \<noteq> CHR ''!'' \<and> b \<noteq> CHR ''='')"
proof (cases s)
  case Nil
  then show ?thesis by (simp add: loose_equality_def)
next
  case s: (Cons a s1)
  show ?thesis
  proof (cases "\<exists>b post. s1 = ''=='' @ b # post")
    case True
    then obtain b post where "s1 = ''=='' @ b # post" by blast
    with s show ?thesis by (auto simp: loose_equality_def)
  next
    case False
    have "rmatch (Seq (Lit ''=='') (NoneOf ''='')) (q, s1) = []" for q
    proof (cases "take (Suc (Suc 0)) s1 = ''==''")
      case True
      then have s1: "s1 = ''=='' @ drop (Suc (Suc 0)) s1" by (metis append_take_drop_id)
      with False have "drop (Suc (Suc 0)) s1 = []" by (cases "drop (Suc (Suc 0)) s1") auto
      with True show ?thesis by simp
    next
      case False
      then show ?thesis by simp
    qed
    with s False show ?thesis by (auto simp: loose_equality_def)
  qed
qed

lemma search_from_iff:
  assumes "\<And>p s. (rmatch r (p, s) \<noteq> []) = M s"
  shows "search_from r p s = (\<exists>pre post. s = pre @ post \<and> M post)"
proof (induction s arbitrary: p)
  case Nil
  then show ?case by (simp add: assms)
next
  case (Cons c cs)
  have "(\<exists>pre post. c # cs = pre @ post \<and> M post) = (M (c # cs) \<or> (\<exists>pre post. cs = pre @ post \<and> M post))"
    by (auto simp: Cons_eq_append_conv)
  then show ?case by (simp add: assms Cons.IH)
qed

lemma loose_equality_search:
  "re_search loose_equality l \<longleftrightarrow>
     (\<exists>pre a b post. l = pre @ a # ''=='' @ b # post
        \<and> a \<noteq> CHR ''='' \<and> a \<noteq> CHR ''!'' \<and> b \<noteq> CHR ''='')"
proof -
  let ?M = "\<lambda>s. \<exists>a b post. s = a # ''=='' @ b # post
        \<and> a \<noteq> CHR ''='' \<and> a \<noteq> CHR ''!'' \<and> b \<noteq> CHR ''=''"
  have "search_from loose_equality None l = (\<exists>pre post. l = pre @ post \<and> ?M post)"
    by (rule search_from_iff) (rule loose_equality_at)
  then show ?thesis unfolding re_search_def by blast
qed

lemma loose_equality_column: "re_search loose_equality l \<Longrightarrow> 0 \<le> str_find l ''==''"
proof (rule str_find_nonneg)
  assume "re_search loose_equality l"
  then obtain pre a b post where "l = pre @ a # ''=='' @ b # post"
    unfolding loose_equality_search by blast
  then have "l = (pre @ [a]) @ ''=='' @ (b # post)" by simp
  then show "\<exists>pre post. l = pre @ ''=='' @ post" by blast
qed

lemma for_each_line_set:
  "i \<in> set (for_each_line body n ls) \<Longrightarrow> \<exists>m l. i \<in> set (body m l)"
  by (induction ls arbitrary: n) auto

lemma int_or_nonneg: "(\<And>n. x = Some n \<Longrightarrow> 0 \<le> n) \<Longrightarrow> 0 \<le> d \<Longrightarrow> 0 \<le> int_or x d"
  by (auto simp: int_or_def split: option.splits)

lemma python_line_rules_plain:
  "i \<in> set (python_line_rules f n l) \<Longrightarrow> issue_type i \<noteq> SYNTAX_ERROR \<and> column_ok i"
  by (auto simp: python_line_rules_def column_ok_def split: if_splits dest: print_call_column)

lemma javascript_line_rules_plain:
  "i \<in> set (javascript_line_rules f n l) \<Longrightarrow> issue_type i \<noteq> SYNTAX_ERROR \<and> column_ok i"
  by (auto simp: javascript_line_rules_def column_ok_def split: if_splits
      dest: loose_equality_column var_declaration_column console_call_column)

lemma security_scan_plain:
  "i \<in> set (security_scan f content ls) \<Longrightarrow> issue_type i \<noteq> SYNTAX_ERROR \<and> column_ok i"
  by (auto simp: security_scan_def security_issue_def column_ok_def split: if_splits prod.splits)

lemma syntax_issue_type: "issue_type (syntax_issue f lineno offset msg) = SYNTAX_ERROR"
  by (simp add: syntax_issue_def)

lemma syntax_issue_column: "column (syntax_issue f lineno offset msg) = PInt (int_or offset 0)"
  by (simp add: syntax_issue_def)

text \<open>
  An issue of a Python file comes from a line rule or a security pattern, or it is the
  syntax issue of the file.
\<close>

lemma scan_python_file_cases:
  assumes "i \<in> set (scan_python_file parse f)"
  shows "(issue_type i \<noteq> SYNTAX_ERROR \<and> column_ok i)
         \<or> (\<exists>content lineno offset msg. snd f = Some content
               \<and> parse content = SyntaxError lineno offset msg
               \<and> i = syntax_issue (fst f) lineno offset msg)"
proof (cases "snd f")
  case None
  with assms show ?thesis by (simp add: scan_python_file_def)
next
  case content: (Some content)
  let ?lines = "for_each_line (python_line_rules (fst f)) 1 (split_lines content)"
  have lines: "j \<in> set ?lines \<Longrightarrow> issue_type j \<noteq> SYNTAX_ERROR \<and> column_ok j" for j
    by (auto dest!: for_each_line_set python_line_rules_plain)
  note sec = security_scan_plain [of i "fst f" content "split_lines content"]
  show ?thesis
  proof (cases "parse content")
    case Parsed
    with content assms have "i \<in> set ?lines \<or> i \<in> set (security_scan (fst f) content (split_lines content))"
      by (simp add: scan_python_file_def Let_def)
    with lines sec show ?thesis by blast
  next
    case (SyntaxError lineno offset msg)
    with content assms have "i \<in> set ?lines \<or> i = syntax_issue (fst f) lineno offset msg
        \<or> i \<in> set (security_scan (fst f) content (split_lines content))"
      by (auto simp: scan_python_file_def Let_def)
    with lines sec content SyntaxError show ?thesis by blast
  next
    case ParseRaises
    with content assms have "i \<in> set ?lines"
      by (simp add: scan_python_file_def Let_def)
    with lines show ?thesis by blast
  qed
qed

lemma scan_javascript_file_plain:
  "i \<in> set (scan_javascript_file f) \<Longrightarrow> issue_type i \<noteq> SYNTAX_ERROR \<and> column_ok i"
  by (auto simp: scan_javascript_file_def split: option.splits
      dest!: for_each_line_set javascript_line_rules_plain)

lemma pattern_issue_cases:
  assumes "i \<in> set (pattern_issues w)"
  shows "(issue_type i \<noteq> SYNTAX_ERROR \<and> column_ok i)
         \<or> (\<exists>path content lineno offset msg. (path, Some content) \<in> set (py_files w)
               \<and> ast_parse w content = SyntaxError lineno offset msg
               \<and> i = syntax_issue path lineno offset msg)"
proof -
  from assms consider f where "f \<in> set (py_files w)" "i \<in> set (scan_python_file (ast_parse w) f)"
    | f where "i \<in> set (scan_javascript_file f)"
    by (auto simp: pattern_issues_def scan_python_def scan_javascript_def)
  then show ?thesis
  proof cases
    case 1
    from scan_python_file_cases [OF 1(2)] show ?thesis
    proof
      assume "issue_type i \<noteq> SYNTAX_ERROR \<and> column_ok i"
      then show ?thesis ..
    next
      assume "\<exists>content lineno offset msg. snd f = Some content
               \<and> ast_parse w content = SyntaxError lineno offset msg
               \<and> i = syntax_issue (fst f) lineno offset msg"
      then obtain content lineno offset msg where
        c: "snd f = Some content" "ast_parse w content = SyntaxError lineno offset msg"
          "i = syntax_issue (fst f) lineno offset msg"
        by blast
      from c(1) 1(1) have "(fst f, Some content) \<in> set (py_files w)" by (cases f) simp
      with c(2,3) show ?thesis by blast
    qed
  next
    case 2
    then show ?thesis by (blast dest: scan_javascript_file_plain)
  qed
qed

lemma column_ok_iff: "column_ok i = (\<exists>c. column i = PInt c \<and> 0 \<le> c)"
  by (auto simp: column_ok_def split: pyval.splits)

text \<open>
  C10, as amended. Every issue of the two pattern detectors other than a syntax_error issue
  has a column that is not negative: a column taken with \<^verbatim>\<open>str.find\<close> is stored only
  after the rule's expression matched the line, and the literal searched for is part of
  every such match, so -1 is never stored; the other such columns are the constant 0. The
  column of a syntax_error issue is \<^verbatim>\<open>e.offset or 0\<close>, the parser's offset as reported;
  so every column is non-negative whenever the offsets that the parser reports for the
  Python files of the tree are.
\<close>

theorem pattern_columns:
  "(\<forall>i \<in> set (pattern_issues w). issue_type i \<noteq> SYNTAX_ERROR \<longrightarrow> (\<exists>c. column i = PInt c \<and> 0 \<le> c))
   \<and> (\<forall>i \<in> set (pattern_issues w). issue_type i = SYNTAX_ERROR \<longrightarrow>
         (\<exists>path content lineno offset msg. (path, Some content) \<in> set (py_files w)
             \<and> ast_parse w content = SyntaxError lineno offset msg
             \<and> column i = PInt (int_or offset 0)))
   \<and> ((\<forall>path content lineno off msg. (path, Some content) \<in> set (py_files w)
           \<and> ast_parse w content = SyntaxError lineno (Some off) msg \<longrightarrow> 0 \<le> off) \<longrightarrow>
        (\<forall>i \<in> set (pattern_issues w). \<exists>c. column i = PInt c \<and> 0 \<le> c))"
proof (intro conjI ballI impI)
  fix i assume "i \<in> set (pattern_issues w)" "issue_type i \<noteq> SYNTAX_ERROR"
  with pattern_issue_cases [of i w] have "column_ok i" by (auto simp: syntax_issue_type)
  then show "\<exists>c. column i = PInt c \<and> 0 \<le> c" by (simp only: column_ok_iff)
next
  fix i assume "i \<in> set (pattern_issues w)" "issue_type i = SYNTAX_ERROR"
  with pattern_issue_cases [of i w] obtain path content lineno offset msg where
    "(path, Some content) \<in> set (py_files w)" "ast_parse w content = SyntaxError lineno offset msg"
    "i = syntax_issue path lineno offset msg"
    by blast
  then show "\<exists>path content lineno offset msg. (path, Some content) \<in> set (py_files w)
             \<and> ast_parse w content = SyntaxError lineno offset msg
             \<and> column i = PInt (int_or offset 0)"
    using syntax_issue_column [of path lineno offset msg] by blast
next
  fix i
  assume offs: "\<forall>path content lineno off msg. (path, Some content) \<in> set (py_files w)
           \<and> ast_parse w content = SyntaxError lineno (Some off) msg \<longrightarrow> 0 \<le> off"
    and i: "i \<in> set (pattern_issues w)"
  from pattern_issue_cases [OF i] have "column_ok i"
  proof
    assume "issue_type i \<noteq> SYNTAX_ERROR \<and> column_ok i"
    then show ?thesis ..
  next
    assume "\<exists>path content lineno offset msg. (path, Some content) \<in> set (py_files w)
               \<and> ast_parse w content = SyntaxError lineno offset msg
               \<and> i = syntax_issue path lineno offset msg"
    then obtain path content lineno offset msg where
      c: "(path, Some content) \<in> set (py_files w)"
        "ast_parse w content = SyntaxError lineno offset msg"
        "i = syntax_issue path lineno offset msg"
      by blast
    have "0 \<le> int_or offset 0"
    proof (rule int_or_nonneg)
      fix n assume "offset = Some n"
      with c(1,2) offs show "0 \<le> n" by blast
    qed simp
    with c(3) show ?thesis by (simp add: column_ok_def syntax_issue_column)
  qed
  then show "\<exists>c. column i = PInt c \<and> 0 \<le> c" by (simp only: column_ok_iff)
qed

lemma pattern_issues_world_syntax:
  "pattern_issues world_syntax =
     [\<lparr> file_path = PStr ''bad.py'', line = PInt 1, column = PInt 0,
         severity = LOW, issue_type = CODE_SMELL,
         message = PStr ''print() usage for debugging'', rule_id = PNone,
         suggestion = Some ''Use logger instead of print'', fixable = True \<rparr>,
      syntax_issue ''bad.py'' (Some 1) (Some 10) ''unexpected EOF while parsing'']"
  by code_simp

theorem pattern_columns_witness:
  "map (\<lambda>i. (issue_type i, column i)) (pattern_issues world_syntax)
     = [(CODE_SMELL, PInt 0), (SYNTAX_ERROR, PInt 10)]
   \<and> (\<exists>c. column (hd (pattern_issues world_syntax)) = PInt c \<and> 0 \<le> c)
   \<and> (\<exists>c. column (syntax_issue ''bad.py'' (Some 1) (Some 10) ''unexpected EOF while parsing'') = PInt c
           \<and> 0 \<le> c)"
proof -
  have "\<forall>path content lineno off msg. (path, Some content) \<in> set (py_files world_syntax)
           \<and> ast_parse world_syntax content = SyntaxError lineno (Some off) msg \<longrightarrow> 0 \<le> off"
    by (simp add: world_syntax_def split: if_splits)
  with pattern_columns [of world_syntax]
  have "\<forall>i \<in> set (pattern_issues world_syntax). \<exists>c. column i = PInt c \<and> 0 \<le> c"
    by blast
  then show ?thesis
    by (simp add: pattern_issues_world_syntax) (simp add: syntax_issue_def int_or_def)
qed

text \<open>
  C10, as stated, fails: the parser's offset is stored without a clamp, and for an offset of
  -3 the syntax_error issue of the run has column -3.
\<close>

lemma pattern_issues_world_negative_offset:
  "pattern_issues world_negative_offset
     = [syntax_issue ''fmt.py'' (Some 3) (Some (- 3)) ''f-string: invalid syntax'']"
  by code_simp

theorem negative_offset_counterexample:
  "map (\<lambda>d. (d_type d, d_line d, d_column d)) (all_issues (run world_negative_offset))
     = [(''syntax_error'', PInt 3, PInt (- 3))]"
proof -
  have "flake8 world_negative_offset = ProcRaises FileNotFoundError"
    "eslint world_negative_offset = ProcRaises FileNotFoundError"
    by (simp_all add: world_negative_offset_def)
  then show ?thesis
    by (simp add: run_summary found_issues_split pattern_issues_world_negative_offset adapter_raises
        issue_to_dict_def syntax_issue_def int_or_def)
qed

section \<open>JavaScript detector: the loose-equality rule\<close>

lemma for_each_line_lines:
  assumes "\<And>j l i. i \<in> set (body j l) \<Longrightarrow> line i = PInt j"
  shows "i \<in> set (for_each_line body m ls) \<Longrightarrow> \<exists>j. line i = PInt j \<and> m \<le> j"
proof (induction ls arbitrary: m)
  case Nil
  then show ?case by simp
next
  case (Cons l ls)
  then consider "i \<in> set (body m l)" | "i \<in> set (for_each_line body (m + 1) ls)" by auto
  then show ?case
  proof cases
    case 1
    then show ?thesis using assms by auto
  next
    case 2
    from Cons.IH [OF this] show ?thesis by auto
  qed
qed

lemma for_each_line_at:
  assumes "\<And>j l i. i \<in> set (body j l) \<Longrightarrow> line i = PInt j"
  shows "n < length ls \<Longrightarrow>
         filter (\<lambda>i. line i = PInt (m + int n) \<and> P i) (for_each_line body m ls)
           = filter P (body (m + int n) (ls ! n))"
proof (induction ls arbitrary: m n)
  case Nil
  then show ?case by simp
next
  case (Cons l ls)
  show ?case
  proof (cases n)
    case 0
    have "filter (\<lambda>i. line i = PInt m \<and> P i) (for_each_line body (m + 1) ls) = []"
    proof -
      have "line i \<noteq> PInt m" if "i \<in> set (for_each_line body (m + 1) ls)" for i
        using for_each_line_lines [OF assms that] by auto
      then show ?thesis by (auto simp: filter_empty_conv)
    qed
    moreover have "filter (\<lambda>i. line i = PInt m \<and> P i) (body m l) = filter P (body m l)"
      by (rule filter_cong) (auto dest: assms)
    ultimately show ?thesis using 0 by simp
  next
    case (Suc k)
    with Cons.prems have k: "k < length ls" by simp
    have "filter (\<lambda>i. line i = PInt (m + int n) \<and> P i) (body m l) = []"
      using Suc by (auto simp: filter_empty_conv dest: assms)
    moreover have "m + 1 + int k = m + int n" using Suc by simp
    moreover note Cons.IH [OF k, of "m + 1"]
    ultimately show ?thesis using Suc by (simp add: add.assoc)
  qed
qed

lemma javascript_line_rules_line: "i \<in> set (javascript_line_rules f j l) \<Longrightarrow> line i = PInt j"
  by (auto simp: javascript_line_rules_def split: if_splits)

lemma javascript_line_rules_medium:
  "filter (\<lambda>i. severity i = MEDIUM \<and> issue_type i = CODE_SMELL) (javascript_line_rules f j l)
     = (if re_search loose_equality l then [loose_equality_issue f j l] else [])"
  by (simp add: javascript_line_rules_def loose_equality_issue_def)

text \<open>
  C6, as amended. For every line of a JavaScript/TypeScript file, the detector emits one
  medium, code_smell, fixable issue at that line when the line holds \<^verbatim>\<open>==\<close> between a
  character that is neither \<^verbatim>\<open>=\<close> nor \<^verbatim>\<open>!\<close> and a character that is not \<^verbatim>\<open>=\<close>, and no
  such issue otherwise: none for a line whose only operator is \<^verbatim>\<open>===\<close>, \<^verbatim>\<open>!==\<close> or
  \<^verbatim>\<open>!=\<close>.
\<close>

theorem loose_equality_rule:
  assumes "n < length (split_lines content)" and "l = split_lines content ! n"
  shows "filter (\<lambda>i. line i = PInt (1 + int n) \<and> severity i = MEDIUM \<and> issue_type i = CODE_SMELL)
           (scan_javascript_file (js_file, Some content))
         = (if \<exists>pre a b post. l = pre @ a # ''=='' @ b # post
                  \<and> a \<noteq> CHR ''='' \<and> a \<noteq> CHR ''!'' \<and> b \<noteq> CHR ''=''
            then [loose_equality_issue js_file (1 + int n) l] else [])"
proof -
  have "filter (\<lambda>i. line i = PInt (1 + int n) \<and> severity i = MEDIUM \<and> issue_type i = CODE_SMELL)
           (scan_javascript_file (js_file, Some content))
        = filter (\<lambda>i. severity i = MEDIUM \<and> issue_type i = CODE_SMELL)
            (javascript_line_rules js_file (1 + int n) l)"
    unfolding scan_javascript_file_def assms(2)
    using for_each_line_at [OF javascript_line_rules_line assms(1)] by simp
  then show ?thesis
    by (simp only: javascript_line_rules_medium loose_equality_search)
qed

text \<open>
  C6, as stated, fails: a line with the loose inequality \<^verbatim>\<open>!=\<close> yields no issue.
\<close>

theorem loose_inequality_counterexample:
  "scan_javascript_file (''app.js'', Some ''if (a != b) { run() }'') = []"
  by code_simp

lemma js_example_lines:
  "split_lines js_example = [''function same(a, b) {'', ''  let y = 0'', '''', ''  // compare'',
      ''  if (a == b)'', ''    var x = 1'']"
  by code_simp

theorem loose_equality_rule_witness:
  "4 < length (split_lines js_example) \<and> split_lines js_example ! 4 = ''  if (a == b)''
   \<and> ''  if (a == b)'' = ''  if (a'' @ CHR '' '' # ''=='' @ CHR '' '' # ''b)''
   \<and> filter (\<lambda>i. line i = PInt 5 \<and> severity i = MEDIUM \<and> issue_type i = CODE_SMELL)
        (scan_javascript_file (''app.js'', Some js_example))
      = [loose_equality_issue ''app.js'' 5 ''  if (a == b)'']
   \<and> str_find ''  if (a == b)'' ''=='' = 8
   \<and> filter (\<lambda>i. line i = PInt 6 \<and> severity i = MEDIUM \<and> issue_type i = CODE_SMELL)
        (scan_javascript_file (''app.js'', Some js_example)) = []
   \<and> map (\<lambda>i. (line i, severity i, issue_type i)) (scan_javascript_file (''app.js'', Some js_example))
      = [(PInt 5, MEDIUM, CODE_SMELL), (PInt 6, LOW, DEPRECATED_USAGE)]"
proof -
  have e: "map (\<lambda>i. (line i, severity i, issue_type i)) (scan_javascript_file (''app.js'', Some js_example))
      = [(PInt 5, MEDIUM, CODE_SMELL), (PInt 6, LOW, DEPRECATED_USAGE)]"
    by code_simp
  have a: "4 < length (split_lines js_example)" "5 < length (split_lines js_example)"
    "split_lines js_example ! 4 = ''  if (a == b)''" "split_lines js_example ! 5 = ''    var x = 1''"
    by (simp_all add: js_example_lines)
  have b: "\<exists>pre a b post. ''  if (a == b)'' = pre @ a # ''=='' @ b # post
                  \<and> a \<noteq> CHR ''='' \<and> a \<noteq> CHR ''!'' \<and> b \<noteq> CHR ''=''"
    by (rule exI [of _ "''  if (a''"], rule exI [of _ "CHR '' ''"], rule exI [of _ "CHR '' ''"],
        rule exI [of _ "''b)''"]) simp
  have c: "\<not> (\<exists>pre a b post. ''    var x = 1'' = pre @ a # ''=='' @ b # post
                  \<and> a \<noteq> CHR ''='' \<and> a \<noteq> CHR ''!'' \<and> b \<noteq> CHR ''='')"
  proof -
    have "\<not> re_search loose_equality ''    var x = 1''" by code_simp
    then show ?thesis unfolding loose_equality_search .
  qed
  have d: "str_find ''  if (a == b)'' ''=='' = 8" by code_simp
  from loose_equality_rule [OF a(1) a(3) [symmetric], of "''app.js''"]
       loose_equality_rule [OF a(2) a(4) [symmetric], of "''app.js''"] a b c d e
  show ?thesis by simp
qed

section \<open>Python detector: whole-file patterns, syntax check, unused variables\<close>

lemma first_line_from_first:
  "k < length ls \<Longrightarrow> re_search pattern (ls ! k) \<Longrightarrow> (\<forall>j<k. \<not> re_search pattern (ls ! j)) \<Longrightarrow>
     first_line_from pattern m ls = m + int k"
proof (induction ls arbitrary: m k)
  case Nil
  then show ?case by simp
next
  case (Cons l ls)
  show ?case
  proof (cases k)
    case 0
    with Cons.prems show ?thesis by simp
  next
    case (Suc k')
    with Cons.prems have "\<not> re_search pattern l" by auto
    moreover from Suc Cons.prems have "first_line_from pattern (m + 1) ls = m + 1 + int k'"
      by (intro Cons.IH) auto
    ultimately show ?thesis using Suc by simp
  qed
qed

lemma first_line_from_none:
  "(\<forall>l \<in> set ls. \<not> re_search pattern l) \<Longrightarrow> first_line_from pattern m ls = 1"
  by (induction ls arbitrary: m) auto

lemma security_message_inj: "(security_message d = security_message d') = (d = d')"
  by (simp add: security_message_def)

lemma python_line_rules_message:
  "i \<in> set (python_line_rules f n l) \<Longrightarrow> message i \<noteq> security_message desc"
  by (auto simp: python_line_rules_def security_message_def split: if_splits)

lemma line_issues_not_security:
  "filter (\<lambda>i. message i = security_message desc) (for_each_line (python_line_rules f) m ls) = []"
  by (auto simp: filter_empty_conv dest!: for_each_line_set python_line_rules_message)

lemma syntax_issue_not_security:
  "message (syntax_issue f lineno offset msg) \<noteq> security_message desc"
  by (simp add: syntax_issue_def security_message_def)

lemma table_filter:
  assumes "\<And>x. P (h x) = (key x = d)"
  shows "distinct (map key tab) \<Longrightarrow> e \<in> set tab \<Longrightarrow> key e = d \<Longrightarrow> c e \<Longrightarrow>
         filter P (concat (map (\<lambda>x. if c x then [h x] else []) tab)) = [h e]"
proof (induction tab)
  case Nil
  then show ?case by simp
next
  case (Cons x tab)
  show ?case
  proof (cases "e = x")
    case True
    with Cons.prems have "key x \<notin> key ` set tab" "d = key x" by auto
    then have "\<forall>y \<in> set tab. key y \<noteq> d" by (metis imageI)
    then have "filter P (concat (map (\<lambda>x. if c x then [h x] else []) tab)) = []"
      by (auto simp: filter_empty_conv assms)
    with True Cons.prems show ?thesis by (simp add: assms)
  next
    case False
    with Cons.prems have "e \<in> set tab" "key x \<noteq> d" by auto
    with Cons show ?thesis by (simp add: assms)
  qed
qed

lemma security_descriptions_distinct: "distinct (map (\<lambda>e. fst (snd e)) security_patterns)"
  by (simp add: security_patterns_def)

lemma security_issue_message:
  "(message (security_issue f ls x) = security_message desc) = (fst (snd x) = desc)"
  by (simp add: security_issue_def security_message_inj split: prod.splits)

lemma security_scan_filter:
  assumes "(pattern, desc, sev, fx) \<in> set security_patterns" and "re_search pattern content"
  shows "filter (\<lambda>i. message i = security_message desc) (security_scan f content ls)
           = [security_issue f ls (pattern, desc, sev, fx)]"
  unfolding security_scan_def
proof (rule table_filter [where key = "\<lambda>e. fst (snd e)" and d = desc
        and P = "\<lambda>i. message i = security_message desc" and h = "security_issue f ls"])
  show "(message (security_issue f ls x) = security_message desc) = (fst (snd x) = desc)" for x
    by (rule security_issue_message)
qed (simp_all add: security_descriptions_distinct assms)

text \<open>
  C5, as amended. For every Python file and every entry of \<^verbatim>\<open>security_patterns\<close> whose expression
  matches the content, the loop over the table emits exactly one issue with that entry's
  message: a security_vulnerability with the entry's severity and fixable flag, column 0, at
  the number of the first line that the expression matches by itself, or at line 1 when it
  matches no single line. For every file that is read and on which \<^verbatim>\<open>ast.parse\<close>
  returns or raises \<^verbatim>\<open>SyntaxError\<close>, it is the one issue with that message in the scan of
  the file. The witness is the file with \<^verbatim>\<open>os.environ["SECRET"]\<close> on line 3.
\<close>

theorem security_pattern_issue:
  assumes "(pattern, desc, sev, fx) \<in> set security_patterns"
    and "re_search pattern content"
    and "lines = split_lines content"
  shows "\<exists>i. filter (\<lambda>i. message i = security_message desc) (security_scan py_file content lines) = [i]
             \<and> (parse content \<noteq> ParseRaises \<longrightarrow>
                  filter (\<lambda>i. message i = security_message desc)
                    (scan_python_file parse (py_file, Some content)) = [i])
             \<and> issue_type i = SECURITY_VULNERABILITY \<and> severity i = sev \<and> fixable i = fx
             \<and> file_path i = PStr py_file \<and> column i = PInt 0
             \<and> (\<forall>k<length lines. re_search pattern (lines ! k)
                    \<and> (\<forall>j<k. \<not> re_search pattern (lines ! j)) \<longrightarrow> line i = PInt (int k + 1))
             \<and> ((\<forall>l \<in> set lines. \<not> re_search pattern l) \<longrightarrow> line i = PInt 1)"
proof -
  let ?i = "security_issue py_file lines (pattern, desc, sev, fx)"
  let ?sec = "\<lambda>i. message i = security_message desc"
  have loop: "filter ?sec (security_scan py_file content lines) = [?i]"
    by (rule security_scan_filter [OF assms(1,2)])
  have "filter ?sec (scan_python_file parse (py_file, Some content)) = [?i]"
    if "parse content \<noteq> ParseRaises"
  proof (cases "parse content")
    case Parsed
    then show ?thesis
      by (simp add: scan_python_file_def Let_def line_issues_not_security
          loop [unfolded assms(3)] assms(3))
  next
    case (SyntaxError lineno offset msg)
    then show ?thesis
      by (simp add: scan_python_file_def Let_def line_issues_not_security
          syntax_issue_not_security loop [unfolded assms(3)] assms(3))
  next
    case ParseRaises
    with that show ?thesis by simp
  qed
  moreover note loop
  moreover have "issue_type ?i = SECURITY_VULNERABILITY" "severity ?i = sev" "fixable ?i = fx"
    "file_path ?i = PStr py_file" "column ?i = PInt 0"
    "line ?i = PInt (find_line_with_pattern lines pattern)"
    by (simp_all add: security_issue_def)
  moreover have "\<forall>k<length lines. re_search pattern (lines ! k)
      \<and> (\<forall>j<k. \<not> re_search pattern (lines ! j)) \<longrightarrow> find_line_with_pattern lines pattern = int k + 1"
    by (auto simp: find_line_with_pattern_def first_line_from_first)
  moreover have "(\<forall>l \<in> set lines. \<not> re_search pattern l) \<longrightarrow> find_line_with_pattern lines pattern = 1"
    by (simp add: find_line_with_pattern_def first_line_from_none)
  ultimately show ?thesis by auto
qed

theorem security_pattern_issue_witness:
  "re_search environ_pattern env_example
   \<and> re_search environ_pattern (split_lines env_example ! 2)
   \<and> \<not> re_search environ_pattern (split_lines env_example ! 0)
   \<and> \<not> re_search environ_pattern (split_lines env_example ! 1)
   \<and> security_scan ''settings.py'' env_example (split_lines env_example)
      = [\<lparr> file_path = PStr ''settings.py'', line = PInt 3, column = PInt 0, severity = HIGH,
           issue_type = SECURITY_VULNERABILITY,
           message = security_message ''Direct environment variable access'', rule_id = PNone,
           suggestion = Some ''Move to .env file'', fixable = True \<rparr>]
   \<and> scan_python_file (\<lambda>c. Parsed) (''settings.py'', Some env_example)
      = [\<lparr> file_path = PStr ''settings.py'', line = PInt 3, column = PInt 0, severity = HIGH,
           issue_type = SECURITY_VULNERABILITY,
           message = security_message ''Direct environment variable access'', rule_id = PNone,
           suggestion = Some ''Move to .env file'', fixable = True \<rparr>]"
proof -
  have m: "re_search environ_pattern env_example"
    "re_search environ_pattern (split_lines env_example ! 2)"
    "\<not> re_search environ_pattern (split_lines env_example ! 0)"
    "\<not> re_search environ_pattern (split_lines env_example ! 1)"
    by code_simp+
  have t: "(environ_pattern, ''Direct environment variable access'', HIGH, True) \<in> set security_patterns"
    by (simp add: security_patterns_def environ_pattern_def)
  have p: "(\<lambda>c. Parsed) env_example \<noteq> ParseRaises" by simp
  have l: "security_scan ''settings.py'' env_example (split_lines env_example)
      = [\<lparr> file_path = PStr ''settings.py'', line = PInt 3, column = PInt 0, severity = HIGH,
           issue_type = SECURITY_VULNERABILITY,
           message = security_message ''Direct environment variable access'', rule_id = PNone,
           suggestion = Some ''Move to .env file'', fixable = True \<rparr>]"
    by code_simp
  have s: "scan_python_file (\<lambda>c. Parsed) (''settings.py'', Some env_example)
      = [\<lparr> file_path = PStr ''settings.py'', line = PInt 3, column = PInt 0, severity = HIGH,
           issue_type = SECURITY_VULNERABILITY,
           message = security_message ''Direct environment variable access'', rule_id = PNone,
           suggestion = Some ''Move to .env file'', fixable = True \<rparr>]"
    by code_simp
  from security_pattern_issue [OF t m(1) refl, of "''settings.py''" "\<lambda>c. Parsed"] p m s l
  show ?thesis by simp
qed

text \<open>
  C5, as stated, fails: the content matches \<^verbatim>\<open>password\s*=\<close>, but \<^verbatim>\<open>ast.parse\<close>
  raises an exception that is not a \<^verbatim>\<open>SyntaxError\<close>, the outer handler abandons the file
  before the loop over the table, and the run reports no issue for it.
\<close>

lemma pattern_issues_world_parser_raises: "pattern_issues world_parser_raises = []"
  by code_simp

theorem parser_exception_counterexample:
  "(password_pattern, ''Password in code'', HIGH, False) \<in> set security_patterns
   \<and> re_search password_pattern (broken_fstring ''password'')
   \<and> py_files world_parser_raises = [(''conf.py'', Some (broken_fstring ''password''))]
   \<and> ast_parse world_parser_raises (broken_fstring ''password'') = ParseRaises
   \<and> all_issues (run world_parser_raises) = []"
proof -
  have "flake8 world_parser_raises = ProcRaises FileNotFoundError"
    "eslint world_parser_raises = ProcRaises FileNotFoundError"
    by (simp_all add: world_parser_raises_def)
  then have "all_issues (run world_parser_raises) = []"
    by (simp add: run_summary found_issues_split pattern_issues_world_parser_raises adapter_raises)
  moreover have "re_search password_pattern (broken_fstring ''password'')" by code_simp
  moreover have "(password_pattern, ''Password in code'', HIGH, False) \<in> set security_patterns"
    by (simp add: security_patterns_def password_pattern_def)
  ultimately show ?thesis by (simp add: world_parser_raises_def)
qed

lemma python_line_rules_type:
  "i \<in> set (python_line_rules f n l) \<Longrightarrow> issue_type i \<noteq> SYNTAX_ERROR"
  by (auto simp: python_line_rules_def split: if_splits)

lemma line_issues_not_syntax:
  "filter (\<lambda>i. issue_type i = SYNTAX_ERROR) (for_each_line (python_line_rules f) m ls) = []"
  by (auto simp: filter_empty_conv dest!: for_each_line_set python_line_rules_type)

lemma security_scan_not_syntax:
  "filter (\<lambda>i. issue_type i = SYNTAX_ERROR) (security_scan f content ls) = []"
  by (auto simp: filter_empty_conv security_scan_def security_issue_def split: if_splits prod.splits)

text \<open>
  C4, as amended. For every Python file whose parse raises \<^verbatim>\<open>SyntaxError\<close>, the
  detector emits exactly one syntax_error issue for the file: critical, not fixable, at
  line \<^verbatim>\<open>lineno or 1\<close> and column \<^verbatim>\<open>offset or 0\<close>; it stands after the issues of the
  line rules and before those of the security patterns, which are emitted as for any file.
\<close>

theorem syntax_error_issue:
  assumes "parse content = SyntaxError lineno offset msg"
  shows "scan_python_file parse (py_file, Some content)
           = for_each_line (python_line_rules py_file) 1 (split_lines content)
             @ [syntax_issue py_file lineno offset msg]
             @ security_scan py_file content (split_lines content)
         \<and> filter (\<lambda>i. issue_type i = SYNTAX_ERROR) (scan_python_file parse (py_file, Some content))
           = [syntax_issue py_file lineno offset msg]
         \<and> severity (syntax_issue py_file lineno offset msg) = CRITICAL
         \<and> issue_type (syntax_issue py_file lineno offset msg) = SYNTAX_ERROR
         \<and> fixable (syntax_issue py_file lineno offset msg) = False
         \<and> file_path (syntax_issue py_file lineno offset msg) = PStr py_file
         \<and> line (syntax_issue py_file lineno offset msg) = PInt (int_or lineno 1)
         \<and> column (syntax_issue py_file lineno offset msg) = PInt (int_or offset 0)"
  using assms
  by (simp add: scan_python_file_def Let_def line_issues_not_syntax security_scan_not_syntax)
     (simp add: syntax_issue_def)

theorem syntax_error_issue_witness:
  "ast_parse world_syntax ''print((1)'' = SyntaxError (Some 1) (Some 10) ''unexpected EOF while parsing''
   \<and> filter (\<lambda>i. issue_type i = SYNTAX_ERROR)
        (scan_python_file (ast_parse world_syntax) (''bad.py'', Some ''print((1)''))
      = [\<lparr> file_path = PStr ''bad.py'', line = PInt 1, column = PInt 10,
           severity = CRITICAL, issue_type = SYNTAX_ERROR,
           message = PStr ''Syntax error: unexpected EOF while parsing'', rule_id = PNone,
           suggestion = Some ''Review syntax on this line'', fixable = False \<rparr>]"
proof -
  have "ast_parse world_syntax ''print((1)'' = SyntaxError (Some 1) (Some 10) ''unexpected EOF while parsing''"
    by (simp add: world_syntax_def)
  moreover from this
  have "filter (\<lambda>i. issue_type i = SYNTAX_ERROR)
          (scan_python_file (ast_parse world_syntax) (''bad.py'', Some ''print((1)''))
        = [syntax_issue ''bad.py'' (Some 1) (Some 10) ''unexpected EOF while parsing'']"
    by (rule syntax_error_issue [THEN conjunct2, THEN conjunct1])
  moreover have "syntax_issue ''bad.py'' (Some 1) (Some 10) ''unexpected EOF while parsing''
        = \<lparr> file_path = PStr ''bad.py'', line = PInt 1, column = PInt 10,
           severity = CRITICAL, issue_type = SYNTAX_ERROR,
           message = PStr ''Syntax error: unexpected EOF while parsing'', rule_id = PNone,
           suggestion = Some ''Review syntax on this line'', fixable = False \<rparr>"
    by (simp add: syntax_issue_def int_or_def)
  ultimately show ?thesis by (simp only: simp_thms)
qed

text \<open>
  C4, as stated, fails: \<^verbatim>\<open>print((1)\<close> does not parse, and the run reports the print
  rule's issue for the file besides the syntax error.
\<close>

theorem syntax_error_not_alone_counterexample:
  "map (\<lambda>d. (d_line d, d_severity d, d_type d)) (all_issues (run world_syntax))
     = [(PInt 1, ''low'', ''code_smell''), (PInt 1, ''critical'', ''syntax_error'')]"
proof -
  have "flake8 world_syntax = ProcRaises FileNotFoundError"
    "eslint world_syntax = ProcRaises FileNotFoundError"
    by (simp_all add: world_syntax_def)
  then show ?thesis
    by (simp add: run_summary found_issues_split pattern_issues_world_syntax adapter_raises
        issue_to_dict_def syntax_issue_def int_or_def)
qed

subsection \<open>The unused-variable rule\<close>

lemma one_char_step:
  "q' \<in> set (one_char P q) \<Longrightarrow> \<exists>c. P c \<and> snd q = c # snd q'"
  by (cases q; cases "snd q") (auto split: if_splits)

lemma rmatch_Star_mem:
  "q' \<in> set (rmatch (Star r) q) \<longleftrightarrow>
     q' = q \<or> (\<exists>q1 \<in> set (rmatch r q). length (snd q1) < length (snd q) \<and> q' \<in> set (rmatch (Star r) q1))"
  by (subst rmatch.simps(11)) (auto split: if_splits simp del: rmatch.simps(11))

lemma rmatch_Seq_mem:
  "q' \<in> set (rmatch (Seq r1 r2) q) \<longleftrightarrow> (\<exists>q1 \<in> set (rmatch r1 q). q' \<in> set (rmatch r2 q1))"
  by (simp del: rmatch.simps(11))

lemma rmatch_Bol_mem: "q' \<in> set (rmatch Bol q) \<Longrightarrow> q' = q"
  by (simp split: if_splits)

lemma rmatch_Eol_mem: "q' \<in> set (rmatch Eol q) \<Longrightarrow> snd q = [] \<or> snd q = [newline]"
  by (simp split: if_splits)

lemma underscore_step:
  "q' \<in> set (rmatch (Lit ''_'') q) \<Longrightarrow> \<exists>c. c = CHR ''_'' \<and> snd q = c # snd q'"
  by (cases "snd q") (auto split: if_splits)

lemma space_step: "q' \<in> set (rmatch Space q) \<Longrightarrow> \<exists>c. py_isspace c \<and> snd q = c # snd q'"
  by (simp add: one_char_step)

lemma word_step: "q' \<in> set (rmatch Word q) \<Longrightarrow> \<exists>c. py_isword c \<and> snd q = c # snd q'"
  by (simp add: one_char_step)

text \<open>A repetition of a one-character expression consumes a run of such characters.\<close>

lemma star_class:
  assumes step: "\<And>q q'. q' \<in> set (rmatch r q) \<Longrightarrow> \<exists>c. P c \<and> snd q = c # snd q'"
  shows "q' \<in> set (rmatch (Star r) q) \<Longrightarrow> \<exists>pre. snd q = pre @ snd q' \<and> (\<forall>c \<in> set pre. P c)"
proof (induction "length (snd q)" arbitrary: q rule: less_induct)
  case less
  from less.prems consider "q' = q"
    | q1 where "q1 \<in> set (rmatch r q)" "length (snd q1) < length (snd q)"
        "q' \<in> set (rmatch (Star r) q1)"
    unfolding rmatch_Star_mem [of q' r q] by blast
  then show ?case
  proof cases
    case 1
    then show ?thesis by simp
  next
    case 2
    from step [OF 2(1)] obtain c where c: "P c" "snd q = c # snd q1" by blast
    from less.hyps [OF 2(2) 2(3)] obtain pre where "snd q1 = pre @ snd q'" "\<forall>c \<in> set pre. P c"
      by blast
    with c have "snd q = (c # pre) @ snd q'" "\<forall>x \<in> set (c # pre). P x" by simp_all
    then show ?thesis by blast
  qed
qed

text \<open>
  A string that \<^verbatim>\<open>^\s*_+\w*$\<close> matches consists of whitespace and word characters only.
\<close>

lemma unused_variable_shape:
  assumes "re_match unused_variable s"
  shows "\<forall>c \<in> set s. py_isspace c \<or> py_isword c"
proof
  fix c assume c: "c \<in> set s"
  from assms obtain qe where "qe \<in> set (rmatch unused_variable (None, s))"
    unfolding re_match_def by (cases "rmatch unused_variable (None, s)") auto
  then have "\<exists>q0 \<in> set (rmatch Bol (None, s)). \<exists>q1 \<in> set (rmatch (Star Space) q0).
      \<exists>q3 \<in> set (rmatch (Seq (Lit ''_'') (Star (Lit ''_''))) q1).
      \<exists>q4 \<in> set (rmatch (Star Word) q3). qe \<in> set (rmatch Eol q4)"
    by (simp only: unused_variable_def Plus_def rmatch_Seq_mem)
  then obtain q0 q1 q3 q4 where
    q0: "q0 \<in> set (rmatch Bol (None, s))" and
    q1: "q1 \<in> set (rmatch (Star Space) q0)" and
    q23: "q3 \<in> set (rmatch (Seq (Lit ''_'') (Star (Lit ''_''))) q1)" and
    q4: "q4 \<in> set (rmatch (Star Word) q3)" and
    qe: "qe \<in> set (rmatch Eol q4)"
    by blast
  from q23 have "\<exists>q2 \<in> set (rmatch (Lit ''_'') q1). q3 \<in> set (rmatch (Star (Lit ''_'')) q2)"
    by (simp only: rmatch_Seq_mem)
  then obtain q2 where
    q2: "q2 \<in> set (rmatch (Lit ''_'') q1)" and
    q3: "q3 \<in> set (rmatch (Star (Lit ''_'')) q2)"
    by blast
  from rmatch_Bol_mem [OF q0] have s0: "snd q0 = s" by simp
  from rmatch_Eol_mem [OF qe] have a8: "snd q4 = [] \<or> snd q4 = [newline]" .
  from star_class [of Space py_isspace, OF space_step q1] obtain p1 where
    a1: "s = p1 @ snd q1" and a2: "\<forall>c \<in> set p1. py_isspace c"
    unfolding s0 by blast
  from underscore_step [OF q2] have a3: "snd q1 = CHR ''_'' # snd q2" by simp
  from star_class [of "Lit ''_''" "\<lambda>c. c = CHR ''_''", OF underscore_step q3] obtain p3 where
    a4: "snd q2 = p3 @ snd q3" and a5: "\<forall>c \<in> set p3. c = CHR ''_''"
    by blast
  from star_class [of Word py_isword, OF word_step q4] obtain p4 where
    a6: "snd q3 = p4 @ snd q4" and a7: "\<forall>c \<in> set p4. py_isword c"
    by blast
  have u: "py_isword CHR ''_''" by code_simp
  have n: "py_isspace newline" by code_simp
  from c have "c \<in> set p1 \<or> c = CHR ''_'' \<or> c \<in> set p3 \<or> c \<in> set p4 \<or> c \<in> set (snd q4)"
    by (simp only: a1 a3 a4 a6 set_append set_simps Un_iff insert_iff)
  then consider "c \<in> set p1" | "c = CHR ''_''" | "c \<in> set p3" | "c \<in> set p4"
    | "c \<in> set (snd q4)"
    by blast
  then show "py_isspace c \<or> py_isword c"
  proof cases
    case 1
    with a2 show ?thesis by simp
  next
    case 2
    with u show ?thesis by simp
  next
    case 3
    with a5 have "c = CHR ''_''" by simp
    with u show ?thesis by simp
  next
    case 4
    with a7 show ?thesis by simp
  next
    case 5
    with a8 have "c = newline" by (cases "snd q4") auto
    with n show ?thesis by simp
  qed
qed

lemma dropWhile_keeps: "x \<in> set xs \<Longrightarrow> \<not> P x \<Longrightarrow> x \<in> set (dropWhile P xs)"
  by (induction xs) auto

lemma str_strip_keeps: "c \<in> set l \<Longrightarrow> \<not> py_isspace c \<Longrightarrow> c \<in> set (str_strip l)"
  unfolding str_strip_def by (simp add: dropWhile_keeps)

text \<open>No line with an equals sign, so no assignment, is flagged by the rule.\<close>

lemma unused_variable_skips_assignment:
  assumes "CHR ''='' \<in> set l"
  shows "\<not> re_match unused_variable (str_strip l)"
proof
  assume "re_match unused_variable (str_strip l)"
  from unused_variable_shape [OF this] have "\<forall>c \<in> set (str_strip l). py_isspace c \<or> py_isword c" .
  moreover have eq: "\<not> py_isspace CHR ''=''" "\<not> py_isword CHR ''=''"
    by code_simp+
  moreover from assms eq(1) have "CHR ''='' \<in> set (str_strip l)" by (rule str_strip_keeps)
  ultimately show False by blast
qed

lemma unused_variable_never_flags_assignment:
  "CHR ''='' \<in> set l \<Longrightarrow> filter (\<lambda>i. issue_type i = UNUSED_CODE) (python_line_rules f n l) = []"
  by (simp add: python_line_rules_def unused_variable_skips_assignment)

text \<open>
  C7. The rule is to flag assignments to underscore names. It flags none: the lines
  \<^verbatim>\<open>_ = compute()\<close> and \<^verbatim>\<open>_unused = compute()\<close> yield no issue, while the bare
  name \<^verbatim>\<open>__doc__\<close>, which assigns nothing, is reported as an unused variable.
\<close>

theorem unused_variable_rule_misses_assignments:
  "scan_python_file (\<lambda>c. Parsed) (''job.py'', Some ''_ = compute()'') = []
   \<and> scan_python_file (\<lambda>c. Parsed) (''job.py'', Some ''_unused = compute()'') = []
   \<and> map (\<lambda>i. (line i, severity i, issue_type i, message i))
        (scan_python_file (\<lambda>c. Parsed) (''job.py'', Some ''__doc__''))
      = [(PInt 1, INFO, UNUSED_CODE, PStr ''Unused variable'')]"
  by code_simp

end
